theory Spec2Isabelle
  imports Main
begin

section \<open>Common values\<close>

text \<open>
  Go's \<^verbatim>\<open>[]byte\<close> and \<^verbatim>\<open>string\<close> are both byte sequences; a HOL \<^typ>\<open>char\<close> is one
  byte, so both are modelled as \<^typ>\<open>string\<close>.
\<close>

type_synonym bytes = string

text \<open>
  An error value handed back by one of the external packages (\<^verbatim>\<open>os\<close>, \<^verbatim>\<open>armor\<close>,
  \<^verbatim>\<open>openpgp\<close>, \<^verbatim>\<open>go-git\<close>). The repository only formats such errors into its own
  messages or passes them on; it never inspects them.
\<close>

datatype lib_error =
    ENOENT
  | EACCES
  | EIO
  | ArmorCorrupt
  | PacketError
  | ChecksumFailure
  | ErrKeyIncorrect
  | ErrReferenceNotFound
  | ErrObjectNotFound
  | ErrMaxResolveRecursion
  | ErrIsBareRepository
  | ErrBranchHashExclusive
  | ErrBranchExists
  | ErrStorage

text \<open>
  One constructor for each \<^verbatim>\<open>return fmt.Errorf(...)\<close> of the two packages, named after the
  error kinds of the specification where it has one, and \<open>Passed\<close> for a plain
  \<^verbatim>\<open>return err\<close>.
\<close>

datatype error =
    EmptyMessage                  \<comment> \<open>"The message content has not been loaded"\<close>
  | RefusePlaintextWrite          \<comment> \<open>"Not allowed to write unencrypted content to a file"\<close>
  | FileExists                    \<comment> \<open>"File already exists"\<close>
  | CreateError lib_error         \<comment> \<open>"Unable to create the file: ..."\<close>
  | PermissionError lib_error     \<comment> \<open>"Unable to change permissions on file to 0600: ..."\<close>
  | WriteError lib_error          \<comment> \<open>"Unable to write to file: ..."\<close>
  | NotArmored lib_error          \<comment> \<open>"Not an armor encoded PGP private key: ..."\<close>
  | NotPrivateKey                 \<comment> \<open>"Not a OpenPGP private key: ..."\<close>
  | KeyParseError lib_error       \<comment> \<open>"Unable to read armor decoded key: ..."\<close>
  | KeyDecryptFailed lib_error    \<comment> \<open>"Failed to decrypt main private key: ..."\<close>
  | NotEncrypted                  \<comment> \<open>"The message is not encrypted"\<close>
  | InvalidArmor lib_error        \<comment> \<open>"Invalid PGP message or not armor encoded: ..."\<close>
  | WrongMessageType              \<comment> \<open>"This file is not a PGP message: ..."\<close>
  | DecryptionError lib_error     \<comment> \<open>"Unable to decrypt the message: ..."\<close>
  | BodyReadError lib_error       \<comment> \<open>"Unable to convert the decrypted message to a string: ..."\<close>
  | AlreadyEncrypted              \<comment> \<open>"The message is encrypted already"\<close>
  | ArmorEncodeError              \<comment> \<open>"Unable to armor encode"\<close>
  | EncryptionError lib_error     \<comment> \<open>"Unable to load keyring for encryption: ..."\<close>
  | BufferedWriteError lib_error  \<comment> \<open>"..., ints buffered: ..."\<close>
  | WorktreeError lib_error       \<comment> \<open>"Unable to load the work tree: ..."\<close>
  | BranchCreateError lib_error   \<comment> \<open>"Unable to create a new branch: ..."\<close>
  | InitialCommitError lib_error  \<comment> \<open>"Unable to make the initial commit: ..."\<close>
  | AddError lib_error            \<comment> \<open>"Unable to git add the file: ..."\<close>
  | CommitError lib_error         \<comment> \<open>"Unable to commit: ..."\<close>
  | Passed lib_error              \<comment> \<open>\<^verbatim>\<open>return err\<close>\<close>

text \<open>
  What a call of a Go function comes to: it returns normally, it returns an error, or it
  panics (here always a nil dereference, which no caller in the repository recovers).
\<close>

datatype 'a result = Ok 'a | Error error | Panic

section \<open>Package encrypt\<close>

subsection \<open>The file system seen by WriteFile\<close>

text \<open>
  A file has permission bits and a content. The state of the \<^verbatim>\<open>os\<close> package is the set
  of files by path, together with what decides the outcome of the calls WriteFile makes:
  whether a new file can be created at a path (its directory exists and is writable),
  which mode a new file gets (0666 less the umask), and whether \<^verbatim>\<open>Chmod\<close> and
  \<^verbatim>\<open>Write\<close> on the path go through.
\<close>

record os_file =
  Mode :: nat
  Content :: bytes

record os_state =
  Files :: "string \<rightharpoonup> os_file"
  CanCreate :: "string \<Rightarrow> bool"
  NewFileMode :: nat
  ChmodOk :: "string \<Rightarrow> bool"
  WriteOk :: "string \<Rightarrow> bool"

text \<open>Owner read is bit 8 (0400) and owner write is bit 7 (0200) of the mode.\<close>

definition owner_readable :: "os_file \<Rightarrow> bool" where
  "owner_readable fl = (Mode fl div 256 mod 2 = 1)"

definition owner_writable :: "os_file \<Rightarrow> bool" where
  "owner_writable fl = (Mode fl div 128 mod 2 = 1)"

text \<open>\<^verbatim>\<open>os.Open\<close>: open for reading; the handle itself carries nothing WriteFile uses.\<close>

definition os_Open :: "os_state \<Rightarrow> string \<Rightarrow> lib_error + unit" where
  "os_Open os p =
     (case Files os p of
        None \<Rightarrow> Inl ENOENT
      | Some fl \<Rightarrow> if owner_readable fl then Inr () else Inl EACCES)"

text \<open>
  \<^verbatim>\<open>os.Create\<close>: open read-write, create if missing, truncate. An existing file keeps
  its mode and loses its content.
\<close>

definition os_Create :: "os_state \<Rightarrow> string \<Rightarrow> (lib_error + unit) \<times> os_state" where
  "os_Create os p =
     (case Files os p of
        None \<Rightarrow>
          if CanCreate os p
          then (Inr (), os\<lparr>Files := (Files os)(p \<mapsto> \<lparr>Mode = NewFileMode os, Content = []\<rparr>)\<rparr>)
          else (Inl EACCES, os)
      | Some fl \<Rightarrow>
          if owner_readable fl \<and> owner_writable fl
          then (Inr (), os\<lparr>Files := (Files os)(p \<mapsto> fl\<lparr>Content := []\<rparr>)\<rparr>)
          else (Inl EACCES, os))"

text \<open>\<^verbatim>\<open>(*os.File).Chmod\<close> on the file just created at \<open>p\<close>.\<close>

definition File_Chmod :: "os_state \<Rightarrow> string \<Rightarrow> nat \<Rightarrow> (lib_error + unit) \<times> os_state" where
  "File_Chmod os p m =
     (case Files os p of
        None \<Rightarrow> (Inl ENOENT, os)
      | Some fl \<Rightarrow>
          if ChmodOk os p
          then (Inr (), os\<lparr>Files := (Files os)(p \<mapsto> fl\<lparr>Mode := m\<rparr>)\<rparr>)
          else (Inl EACCES, os))"

text \<open>\<^verbatim>\<open>(*os.File).Write\<close> at offset 0 of the file just created (and so empty) at \<open>p\<close>.\<close>

definition File_Write :: "os_state \<Rightarrow> string \<Rightarrow> bytes \<Rightarrow> (lib_error + unit) \<times> os_state" where
  "File_Write os p b =
     (case Files os p of
        None \<Rightarrow> (Inl ENOENT, os)
      | Some fl \<Rightarrow>
          if WriteOk os p
          then (Inr (), os\<lparr>Files := (Files os)(p \<mapsto> fl\<lparr>Content := b\<rparr>)\<rparr>)
          else (Inl EIO, os))"

subsection \<open>The PGP value\<close>

text \<open>
  \<^verbatim>\<open>type PGP struct { PrivateKey []byte; Passphrase openpgp.PromptFunction;
  Message []byte; Encrypted bool }\<close>.
  The prompt function is only ever handed on to \<^verbatim>\<open>openpgp.ReadMessage\<close>, so its type is
  left open.
\<close>

record 'p PGP =
  PrivateKey :: bytes
  Passphrase :: 'p
  Message :: bytes
  Encrypted :: bool

subsection \<open>WriteFile\<close>

text \<open>
  \<^verbatim>\<open>func (f *PGP) WriteFile(repoPath string, filename string) error\<close>.
  \<open>join\<close> stands for \<^verbatim>\<open>path.Join\<close>; 0600 is 384. The source's order is kept: the
  length of the message is looked at before the flag.
\<close>

definition WriteFile ::
  "(string \<Rightarrow> string \<Rightarrow> string) \<Rightarrow> os_state \<Rightarrow> 'p PGP \<Rightarrow> string \<Rightarrow> string
     \<Rightarrow> unit result \<times> os_state" where
  "WriteFile join os f repoPath filename =
     (if length (Message f) = 0 then (Error EmptyMessage, os)
      else if \<not> Encrypted f then (Error RefusePlaintextWrite, os)
      else
        let p = join repoPath filename in
        case os_Open os p of
          Inr _ \<Rightarrow> (Error FileExists, os)
        | Inl _ \<Rightarrow>
            (case os_Create os p of
               (Inl err, os1) \<Rightarrow> (Error (CreateError err), os1)
             | (Inr _, os1) \<Rightarrow>
                 (case File_Chmod os1 p 384 of
                    (Inl err, os2) \<Rightarrow> (Error (PermissionError err), os2)
                  | (Inr _, os2) \<Rightarrow>
                      (case File_Write os2 p (Message f) of
                         (Inl err, os3) \<Rightarrow> (Error (WriteError err), os3)
                       | (Inr _, os3) \<Rightarrow> (Ok (), os3)))))"

subsection \<open>The terminal\<close>

text \<open>
  \<^verbatim>\<open>terminal.ReadPassword(int(syscall.Stdin))\<close> returns the bytes typed and an error. The
  terminal is modelled by what its successive reads return (the bytes, and whether the
  error is nil) and by the texts printed so far. A read past the end of the script is a read
  on a closed input: no bytes and an error.
\<close>

record terminal =
  Reads :: "(bytes \<times> bool) list"
  Printed :: "string list"

definition ReadPassword :: "terminal \<Rightarrow> (bytes \<times> bool) \<times> terminal" where
  "ReadPassword t =
     (case Reads t of
        [] \<Rightarrow> (([], False), t)
      | r # rs \<Rightarrow> (r, t\<lparr>Reads := rs\<rparr>))"

definition Print :: "string \<Rightarrow> terminal \<Rightarrow> terminal" where
  "Print x t = t\<lparr>Printed := Printed t @ [x]\<rparr>"

text \<open>\<^verbatim>\<open>func shellPrompt() []byte\<close>; \<^verbatim>\<open>fmt.Println("")\<close> prints a line feed.\<close>

definition shellPrompt :: "terminal \<Rightarrow> bytes \<times> terminal" where
  "shellPrompt t =
     (let t1 = Print ''Enter passphrase: '' t;
          ((passphraseByte, ok), t2) = ReadPassword t1;
          t3 = (if ok then Print [CHR 0x0A] t2 else t2)
      in (passphraseByte, t3))"

subsection \<open>Keys, entities and the OpenPGP packages\<close>

text \<open>
  \<^verbatim>\<open>packet.PrivateKey\<close>: the key's id, whether its secret material is still encrypted, and
  the passphrase that material is protected with. \<^verbatim>\<open>(*PrivateKey).Decrypt\<close> does nothing
  on a key that is not encrypted, unlocks the key when given its passphrase, and fails with
  a checksum error otherwise.
\<close>

record private_key =
  KeyId :: nat
  pk_Encrypted :: bool
  pk_Protection :: bytes

definition PrivateKey_Decrypt :: "private_key \<Rightarrow> bytes \<Rightarrow> (lib_error + unit) \<times> private_key" where
  "PrivateKey_Decrypt pk passphrase =
     (if \<not> pk_Encrypted pk then (Inr (), pk)
      else if passphrase = pk_Protection pk then (Inr (), pk\<lparr>pk_Encrypted := False\<rparr>)
      else (Inl ChecksumFailure, pk))"

text \<open>
  \<^verbatim>\<open>openpgp.Subkey\<close> and \<^verbatim>\<open>openpgp.Entity\<close>; both hold their private key by a pointer
  that may be nil.
\<close>

record subkey =
  sub_PrivateKey :: "private_key option"

record entity =
  ent_PrivateKey :: "private_key option"
  ent_Subkeys :: "subkey list"

text \<open>\<^verbatim>\<open>armor.Block\<close>.\<close>

record block =
  Type :: string
  Body :: bytes

text \<open>The session of the package: the global \<^verbatim>\<open>entityList\<close> and the terminal.\<close>

record session =
  entityList :: "entity list"
  Terminal :: terminal

text \<open>\<^verbatim>\<open>openpgp.MessageDetails\<close>, of which Decrypt reads \<^verbatim>\<open>UnverifiedBody\<close> to its end.\<close>

record message_details =
  UnverifiedBody :: "lib_error + bytes"

text \<open>
  What became of a message handed to the writer \<^verbatim>\<open>openpgp.Encrypt\<close> returned: its
  \<^verbatim>\<open>Write\<close> failed, its \<^verbatim>\<open>Close\<close> failed, or it wrote these bytes to the writer below.
\<close>

datatype written = WriteFailed lib_error | CloseFailed lib_error | Written bytes

text \<open>
  The functions of \<^verbatim>\<open>golang.org/x/crypto/openpgp\<close> and its \<^verbatim>\<open>armor\<close> package that the
  repository calls. Their code is not part of the repository, so they are parameters of
  the model. A writer (\<^verbatim>\<open>armor.Encode\<close>, \<^verbatim>\<open>openpgp.Encrypt\<close>) is modelled by what it
  has written to the writer below it once everything was written to it and it was closed;
  the armor writer sits on a \<^verbatim>\<open>bytes.Buffer\<close>, so it can only fail when it is closed.
  \<^verbatim>\<open>ReadMessage\<close> may call the prompt function, which reads the terminal and unlocks keys
  of the keyring, so it takes the session and returns it.
\<close>

record 'p openpgp =
  armor_Decode :: "bytes \<Rightarrow> lib_error + block"
  armor_Encode :: "string \<Rightarrow> lib_error + (bytes \<Rightarrow> lib_error + bytes)"
  ReadEntity :: "bytes \<Rightarrow> lib_error + entity"
  openpgp_Encrypt :: "entity list \<Rightarrow> lib_error + (bytes \<Rightarrow> written)"
  ReadMessage :: "bytes \<Rightarrow> 'p \<Rightarrow> session \<Rightarrow> (lib_error + message_details) \<times> session"

text \<open>\<^verbatim>\<open>openpgp.PrivateKeyType\<close>.\<close>

definition PrivateKeyType :: string where
  "PrivateKeyType = ''PGP PRIVATE KEY BLOCK''"

subsection \<open>Keyring\<close>

text \<open>
  The loop \<^verbatim>\<open>for _, subkey := range entity.Subkeys { subkey.PrivateKey.Decrypt(passphraseByte) }\<close>:
  the error of each call is dropped, the key behind the pointer is updated. A subkey whose
  \<^verbatim>\<open>PrivateKey\<close> is nil makes the call dereference nil: \<open>None\<close>.
\<close>

fun decrypt_subkeys :: "bytes \<Rightarrow> subkey list \<Rightarrow> subkey list option" where
  "decrypt_subkeys passphraseByte [] = Some []"
| "decrypt_subkeys passphraseByte (k # ks) =
     (case sub_PrivateKey k of
        None \<Rightarrow> None
      | Some pk \<Rightarrow>
          (case decrypt_subkeys passphraseByte ks of
             None \<Rightarrow> None
           | Some ks' \<Rightarrow>
               Some (k\<lparr>sub_PrivateKey := Some (snd (PrivateKey_Decrypt pk passphraseByte))\<rparr> # ks')))"

text \<open>
  \<^verbatim>\<open>func (f *PGP) Keyring() error\<close>. The prompt is the first statement; the entity is
  appended by the last one before \<^verbatim>\<open>return nil\<close>.
\<close>

definition Keyring :: "'p openpgp \<Rightarrow> 'p PGP \<Rightarrow> session \<Rightarrow> unit result \<times> session" where
  "Keyring lib f s =
     (let (passphraseByte, t1) = shellPrompt (Terminal s);
          s1 = s\<lparr>Terminal := t1\<rparr>
      in case armor_Decode lib (PrivateKey f) of
           Inl err \<Rightarrow> (Error (NotArmored err), s1)
         | Inr blk \<Rightarrow>
             if Type blk \<noteq> PrivateKeyType then (Error NotPrivateKey, s1)
             else
               (case ReadEntity lib (Body blk) of
                  Inl err \<Rightarrow> (Error (KeyParseError err), s1)
                | Inr ent \<Rightarrow>
                    (case (case ent_PrivateKey ent of
                             None \<Rightarrow> Inr ent
                           | Some pk \<Rightarrow>
                               if pk_Encrypted pk
                               then (case PrivateKey_Decrypt pk passphraseByte of
                                       (Inl err, _) \<Rightarrow> Inl err
                                     | (Inr _, pk') \<Rightarrow> Inr (ent\<lparr>ent_PrivateKey := Some pk'\<rparr>))
                               else Inr ent) of
                       Inl err \<Rightarrow> (Error (KeyDecryptFailed err), s1)
                     | Inr ent1 \<Rightarrow>
                         (case decrypt_subkeys passphraseByte (ent_Subkeys ent1) of
                            None \<Rightarrow> (Panic, s1)
                          | Some sks \<Rightarrow>
                              (Ok (),
                               s1\<lparr>entityList := entityList s1 @ [ent1\<lparr>ent_Subkeys := sks\<rparr>]\<rparr>)))))"

subsection \<open>Encrypt and Decrypt\<close>

text \<open>
  \<^verbatim>\<open>func (f *PGP) Encrypt() error\<close>. The armor writer is opened first, the encrypting
  writer on top of it; the message goes through the encrypting writer and what that one
  wrote goes through the armor writer. Reading the buffer back cannot fail. On success the
  receiver gets the armored text and the flag; on an error the receiver is as it was.
\<close>

definition Encrypt :: "'p openpgp \<Rightarrow> session \<Rightarrow> 'p PGP \<Rightarrow> 'p PGP result" where
  "Encrypt lib s f =
     (if Encrypted f then Error AlreadyEncrypted
      else
        case armor_Encode lib ''PGP MESSAGE'' of
          Inl _ \<Rightarrow> Error ArmorEncodeError
        | Inr b \<Rightarrow>
            (case openpgp_Encrypt lib (entityList s) of
               Inl err \<Rightarrow> Error (EncryptionError err)
             | Inr e \<Rightarrow>
                 (case e (Message f) of
                    WriteFailed err \<Rightarrow> Error (BufferedWriteError err)
                  | CloseFailed err \<Rightarrow> Error (Passed err)
                  | Written c \<Rightarrow>
                      (case b c of
                         Inl err \<Rightarrow> Error (Passed err)
                       | Inr message \<Rightarrow> Ok (f\<lparr>Encrypted := True, Message := message\<rparr>)))))"

text \<open>\<^verbatim>\<open>func (f *PGP) Decrypt() error\<close>.\<close>

definition Decrypt :: "'p openpgp \<Rightarrow> session \<Rightarrow> 'p PGP \<Rightarrow> 'p PGP result \<times> session" where
  "Decrypt lib s f =
     (if \<not> Encrypted f then (Error NotEncrypted, s)
      else
        case armor_Decode lib (Message f) of
          Inl err \<Rightarrow> (Error (InvalidArmor err), s)
        | Inr blk \<Rightarrow>
            if Type blk \<noteq> ''PGP MESSAGE'' then (Error WrongMessageType, s)
            else
              (case ReadMessage lib (Body blk) (Passphrase f) s of
                 (Inl err, s1) \<Rightarrow> (Error (DecryptionError err), s1)
               | (Inr md, s1) \<Rightarrow>
                   (case UnverifiedBody md of
                      Inl err \<Rightarrow> (Error (BodyReadError err), s1)
                    | Inr message \<Rightarrow> (Ok (f\<lparr>Encrypted := False, Message := message\<rparr>), s1))))"

subsection \<open>What the round trip needs of the OpenPGP packages\<close>

text \<open>
  The armor of type \<open>t\<close> can be written, and what \<^verbatim>\<open>armor.Encode\<close> writes for a body
  is decoded by \<^verbatim>\<open>armor.Decode\<close> to a block of that type with that body.
\<close>

definition armor_contract :: "'p openpgp \<Rightarrow> string \<Rightarrow> bool" where
  "armor_contract lib t =
     (\<exists>w. armor_Encode lib t = Inr w
        \<and> (\<forall>body. \<exists>a. w body = Inr a \<and> armor_Decode lib a = Inr \<lparr>Type = t, Body = body\<rparr>))"

text \<open>
  The keyring of the session is valid: \<^verbatim>\<open>openpgp.Encrypt\<close> accepts it as the list of
  recipients, and \<^verbatim>\<open>openpgp.ReadMessage\<close>, run in that session on what was encrypted to
  it, gives a body that reads as the plaintext, whatever the prompt function.
\<close>

definition keyring_valid :: "'p openpgp \<Rightarrow> session \<Rightarrow> bool" where
  "keyring_valid lib s =
     (\<exists>w. openpgp_Encrypt lib (entityList s) = Inr w
        \<and> (\<forall>m. \<exists>c. w m = Written c
              \<and> (\<forall>p. \<exists>s1. ReadMessage lib c p s = (Inr \<lparr>UnverifiedBody = Inr m\<rparr>, s1))))"

text \<open>
  A private key after \<^verbatim>\<open>Decrypt\<close> was called on it with a passphrase (a nil pointer
  stays nil).
\<close>

definition unlock :: "bytes \<Rightarrow> private_key option \<Rightarrow> private_key option" where
  "unlock passphrase k = map_option (\<lambda>pk. snd (PrivateKey_Decrypt pk passphrase)) k"

section \<open>Package git\<close>

subsection \<open>Objects and references of go-git\<close>

text \<open>
  \<^verbatim>\<open>gopkg.in/src-d/go-git.v4\<close> is not part of the repository. What follows is a model of
  the part of it the repository calls, as far as references, \<^verbatim>\<open>HEAD\<close> and commit objects
  go; what it does to the index and the files of the work tree is left to parameters.

  A hash identifies the content it was computed from, so the hash of a commit is modelled
  as the commit itself; \<open>ZeroHash\<close> is \<^verbatim>\<open>plumbing.ZeroHash\<close>, and \<open>OtherHash\<close> stands for
  the hash of an object that is not a commit.
\<close>

datatype signature = Signature (sig_Name: string) (sig_Email: string) (sig_When: nat)

type_synonym tree = nat

datatype hash = ZeroHash | CommitHash commit | OtherHash nat
and commit =
  MkCommit (Commit_Author: signature) (Commit_Committer: signature) (Commit_Message: string)
    (Commit_TreeHash: tree) (Commit_ParentHashes: "hash list")

text \<open>
  \<^verbatim>\<open>plumbing.Reference\<close>: a name with either a hash or the name of another reference.
  \<^verbatim>\<open>Hash()\<close> of a symbolic reference is the zero hash.
\<close>

datatype ref_target = HashReference hash | SymbolicReference string

type_synonym reference = "string \<times> ref_target"

fun ref_Hash :: "reference \<Rightarrow> hash" where
  "ref_Hash (n, HashReference h) = h"
| "ref_Hash (n, SymbolicReference t) = ZeroHash"

definition IsBranch :: "string \<Rightarrow> bool" where
  "IsBranch n = (take 11 n = ''refs/heads/'')"

definition IsTag :: "string \<Rightarrow> bool" where
  "IsTag n = (take 10 n = ''refs/tags/'')"

text \<open>
  \<^verbatim>\<open>*git.Repository\<close>: the stored references in the order the storer lists them, the
  hashes of the stored objects, the work tree (\<open>None\<close> in a bare repository), and whether
  listing the references fails (for instance on an unreadable \<^verbatim>\<open>packed-refs\<close>).
\<close>

record 'w git_repository =
  Refs :: "reference list"
  Objects :: "hash set"
  Wt :: "'w option"
  RefsFail :: bool

text \<open>
  What the model takes from outside: the clock behind \<^verbatim>\<open>time.Now()\<close>,
  \<^verbatim>\<open>ReferenceName.Short\<close>, and go-git's work on the index and the files of the work tree
  (the reset of a checkout to a commit, \<^verbatim>\<open>Add\<close> of a path, the staging of modified and
  deleted files that \<^verbatim>\<open>All\<close> asks for, and the tree built from the index).
\<close>

record 'w git_env =
  Now :: nat
  Short :: "string \<Rightarrow> string"
  wt_Reset :: "hash \<Rightarrow> 'w \<Rightarrow> lib_error + 'w"
  wt_Add :: "string \<Rightarrow> 'w \<Rightarrow> lib_error + 'w"
  wt_AddModified :: "'w \<Rightarrow> lib_error + 'w"
  wt_BuildTree :: "'w \<Rightarrow> lib_error + tree"

text \<open>\<^verbatim>\<open>Storer.Reference\<close>, \<^verbatim>\<open>Storer.SetReference\<close> and \<^verbatim>\<open>Storer.IterReferences\<close>.\<close>

definition Storer_Reference :: "'w git_repository \<Rightarrow> string \<Rightarrow> lib_error + reference" where
  "Storer_Reference g n =
     (case map_of (Refs g) n of
        None \<Rightarrow> Inl ErrReferenceNotFound
      | Some t \<Rightarrow> Inr (n, t))"

fun set_ref :: "reference \<Rightarrow> reference list \<Rightarrow> reference list" where
  "set_ref r [] = [r]"
| "set_ref r (x # xs) = (if fst x = fst r then r # xs else x # set_ref r xs)"

definition Storer_SetReference ::
  "'w git_repository \<Rightarrow> reference \<Rightarrow> (lib_error + unit) \<times> 'w git_repository" where
  "Storer_SetReference g r = (Inr (), g\<lparr>Refs := set_ref r (Refs g)\<rparr>)"

definition Repository_References :: "'w git_repository \<Rightarrow> lib_error + reference list" where
  "Repository_References g = (if RefsFail g then Inl ErrStorage else Inr (Refs g))"

text \<open>
  \<^verbatim>\<open>storer.ResolveReference\<close> follows symbolic references; the count starts at 0 and the
  walk gives up once it is above \<^verbatim>\<open>MaxResolveRecursion\<close> = 1024.
\<close>

function resolveReference ::
  "'w git_repository \<Rightarrow> reference \<Rightarrow> nat \<Rightarrow> lib_error + reference" where
  "resolveReference g r recursion =
     (case snd r of
        HashReference h \<Rightarrow> Inr r
      | SymbolicReference t \<Rightarrow>
          if recursion > 1024 then Inl ErrMaxResolveRecursion
          else (case Storer_Reference g t of
                  Inl err \<Rightarrow> Inl err
                | Inr r' \<Rightarrow> resolveReference g r' (recursion + 1)))"
  by pat_completeness auto
termination
  by (relation "measure (\<lambda>(g, r, recursion). 1025 - recursion)") auto

declare resolveReference.simps [simp del]

definition ResolveReference :: "'w git_repository \<Rightarrow> string \<Rightarrow> lib_error + reference" where
  "ResolveReference g n =
     (case Storer_Reference g n of
        Inl err \<Rightarrow> Inl err
      | Inr r \<Rightarrow> resolveReference g r 0)"

text \<open>\<^verbatim>\<open>(*Repository).Reference\<close>, \<^verbatim>\<open>Head\<close>, \<^verbatim>\<open>CommitObject\<close> and \<^verbatim>\<open>Worktree\<close>.\<close>

definition Repository_Reference ::
  "'w git_repository \<Rightarrow> string \<Rightarrow> bool \<Rightarrow> lib_error + reference" where
  "Repository_Reference g n resolved =
     (if resolved then ResolveReference g n else Storer_Reference g n)"

definition Repository_Head :: "'w git_repository \<Rightarrow> lib_error + reference" where
  "Repository_Head g = ResolveReference g ''HEAD''"

definition Repository_CommitObject :: "'w git_repository \<Rightarrow> hash \<Rightarrow> lib_error + commit" where
  "Repository_CommitObject g h =
     (case h of
        CommitHash c \<Rightarrow> if h \<in> Objects g then Inr c else Inl ErrObjectNotFound
      | _ \<Rightarrow> Inl ErrObjectNotFound)"

definition Repository_Worktree :: "'w git_repository \<Rightarrow> lib_error + 'w" where
  "Repository_Worktree g =
     (case Wt g of None \<Rightarrow> Inl ErrIsBareRepository | Some w \<Rightarrow> Inr w)"

subsection \<open>Checkout\<close>

text \<open>\<^verbatim>\<open>git.CheckoutOptions\<close>.\<close>

record CheckoutOptions =
  Hash :: hash
  Branch :: string
  Create :: bool
  Force :: bool

text \<open>
  \<^verbatim>\<open>(*Worktree).createBranch\<close>: refuses a name that is taken; with no hash given the new
  branch starts at the commit \<^verbatim>\<open>HEAD\<close> resolves to, and the options keep that hash.
\<close>

definition createBranch ::
  "CheckoutOptions \<Rightarrow> 'w git_repository
     \<Rightarrow> (lib_error + CheckoutOptions) \<times> 'w git_repository" where
  "createBranch opts g =
     (case Storer_Reference g (Branch opts) of
        Inr _ \<Rightarrow> (Inl ErrBranchExists, g)
      | Inl _ \<Rightarrow>
          (case (if Hash opts = ZeroHash
                 then (case Repository_Head g of
                         Inl err \<Rightarrow> Inl err
                       | Inr r \<Rightarrow> Inr (opts\<lparr>Hash := ref_Hash r\<rparr>))
                 else Inr opts) of
             Inl err \<Rightarrow> (Inl err, g)
           | Inr opts1 \<Rightarrow>
               (case Storer_SetReference g (Branch opts1, HashReference (Hash opts1)) of
                  (Inl err, g1) \<Rightarrow> (Inl err, g1)
                | (Inr _, g1) \<Rightarrow> (Inr opts1, g1))))"

text \<open>
  \<^verbatim>\<open>getCommitFromCheckoutOptions\<close>, for a branch name that is not under \<^verbatim>\<open>refs/tags/\<close>
  (the repository only checks out names it builds as \<^verbatim>\<open>refs/heads/...\<close>).
\<close>

definition getCommitFromCheckoutOptions ::
  "CheckoutOptions \<Rightarrow> 'w git_repository \<Rightarrow> lib_error + hash" where
  "getCommitFromCheckoutOptions opts g =
     (if Hash opts \<noteq> ZeroHash then Inr (Hash opts)
      else (case Repository_Reference g (Branch opts) True of
              Inl err \<Rightarrow> Inl err
            | Inr b \<Rightarrow> Inr (ref_Hash b)))"

definition setHEADToCommit ::
  "hash \<Rightarrow> 'w git_repository \<Rightarrow> (lib_error + unit) \<times> 'w git_repository" where
  "setHEADToCommit c g = Storer_SetReference g (''HEAD'', HashReference c)"

definition setHEADToBranch ::
  "string \<Rightarrow> hash \<Rightarrow> 'w git_repository \<Rightarrow> (lib_error + unit) \<times> 'w git_repository" where
  "setHEADToBranch branch c g =
     (case Storer_Reference g branch of
        Inl err \<Rightarrow> (Inl err, g)
      | Inr target \<Rightarrow>
          if IsBranch (fst target)
          then Storer_SetReference g (''HEAD'', SymbolicReference (fst target))
          else Storer_SetReference g (''HEAD'', HashReference c))"

text \<open>
  \<^verbatim>\<open>(*Worktree).setHEADCommit\<close>, the part of \<^verbatim>\<open>Reset\<close> that moves what \<^verbatim>\<open>HEAD\<close> names.
\<close>

definition setHEADCommit ::
  "hash \<Rightarrow> 'w git_repository \<Rightarrow> (lib_error + unit) \<times> 'w git_repository" where
  "setHEADCommit c g =
     (case Storer_Reference g ''HEAD'' of
        Inl err \<Rightarrow> (Inl err, g)
      | Inr head \<Rightarrow>
          (case snd head of
             HashReference _ \<Rightarrow> Storer_SetReference g (''HEAD'', HashReference c)
           | SymbolicReference t \<Rightarrow>
               (case Storer_Reference g t of
                  Inl err \<Rightarrow> (Inl err, g)
                | Inr branch \<Rightarrow>
                    if \<not> IsBranch (fst branch) then (Inl ErrStorage, g)
                    else Storer_SetReference g (fst branch, HashReference c))))"

text \<open>
  \<^verbatim>\<open>(*Worktree).Reset\<close> to a commit: the index and the files are reset by the parameter
  (which is also where a merge reset refuses a work tree with unstaged changes), and
  \<^verbatim>\<open>HEAD\<close> is moved.
\<close>

definition Worktree_Reset ::
  "'w git_env \<Rightarrow> hash \<Rightarrow> 'w git_repository \<Rightarrow> (lib_error + unit) \<times> 'w git_repository" where
  "Worktree_Reset G c g =
     (case Repository_Worktree g of
        Inl err \<Rightarrow> (Inl err, g)
      | Inr w \<Rightarrow>
          (case wt_Reset G c w of
             Inl err \<Rightarrow> (Inl err, g)
           | Inr w1 \<Rightarrow>
               (case setHEADCommit c g of
                  (Inl err, g1) \<Rightarrow> (Inl err, g1)
                | (Inr _, g1) \<Rightarrow> (Inr (), g1\<lparr>Wt := Some w1\<rparr>))))"

text \<open>
  \<^verbatim>\<open>(*Worktree).Checkout\<close>: validate the options (a hash and a branch exclude each other
  unless the branch is to be created; no branch means master), create the branch if asked
  to, find the commit, point \<^verbatim>\<open>HEAD\<close>, reset.
\<close>

definition Worktree_Checkout ::
  "'w git_env \<Rightarrow> CheckoutOptions \<Rightarrow> 'w git_repository
     \<Rightarrow> (lib_error + unit) \<times> 'w git_repository" where
  "Worktree_Checkout G opts0 g =
     (if \<not> Create opts0 \<and> Hash opts0 \<noteq> ZeroHash \<and> Branch opts0 \<noteq> []
      then (Inl ErrBranchHashExclusive, g)
      else
        let opts = (if Branch opts0 = [] then opts0\<lparr>Branch := ''refs/heads/master''\<rparr> else opts0) in
        case (if Create opts then createBranch opts g else (Inr opts, g)) of
          (Inl err, g1) \<Rightarrow> (Inl err, g1)
        | (Inr opts1, g1) \<Rightarrow>
            (case getCommitFromCheckoutOptions opts1 g1 of
               Inl err \<Rightarrow> (Inl err, g1)
             | Inr c \<Rightarrow>
                 (case (if Hash opts1 \<noteq> ZeroHash \<and> \<not> Create opts1
                        then setHEADToCommit (Hash opts1) g1
                        else setHEADToBranch (Branch opts1) c g1) of
                    (Inl err, g2) \<Rightarrow> (Inl err, g2)
                  | (Inr _, g2) \<Rightarrow> Worktree_Reset G c g2)))"

subsection \<open>Commit\<close>

text \<open>
  \<^verbatim>\<open>git.CommitOptions\<close>; the repository always gives an author and never a committer.
  \<^verbatim>\<open>All\<close> is a constant of HOL, hence \<open>CommitAll\<close>.
\<close>

record CommitOptions =
  CommitAll :: bool
  Author :: signature
  Committer :: "signature option"
  Parents :: "hash list"

text \<open>
  \<^verbatim>\<open>(*CommitOptions).Validate\<close>: the committer defaults to the author, and, in the words
  of go-git's documentation of \<^verbatim>\<open>Parents\<close>, "by default when len(Parents) is zero, the
  hash of HEAD reference is used"; only when \<^verbatim>\<open>HEAD\<close> does not resolve to a reference
  do the parents stay empty.
\<close>

definition CommitOptions_Validate ::
  "CommitOptions \<Rightarrow> 'w git_repository \<Rightarrow> lib_error + CommitOptions" where
  "CommitOptions_Validate opts g =
     (let opts1 = (case Committer opts of
                     None \<Rightarrow> opts\<lparr>Committer := Some (Author opts)\<rparr>
                   | Some _ \<Rightarrow> opts)
      in if length (Parents opts1) = 0
         then (case Repository_Head g of
                 Inl err \<Rightarrow> if err = ErrReferenceNotFound then Inr opts1 else Inl err
               | Inr head \<Rightarrow> Inr (opts1\<lparr>Parents := [ref_Hash head]\<rparr>))
         else Inr opts1)"

text \<open>
  \<^verbatim>\<open>(*Worktree).updateHEAD\<close>: the new commit becomes the tip of the branch \<^verbatim>\<open>HEAD\<close>
  names, or of \<^verbatim>\<open>HEAD\<close> itself when it is detached.
\<close>

definition updateHEAD ::
  "hash \<Rightarrow> 'w git_repository \<Rightarrow> (lib_error + unit) \<times> 'w git_repository" where
  "updateHEAD c g =
     (case Storer_Reference g ''HEAD'' of
        Inl err \<Rightarrow> (Inl err, g)
      | Inr head \<Rightarrow>
          (case snd head of
             HashReference _ \<Rightarrow> Storer_SetReference g (''HEAD'', HashReference c)
           | SymbolicReference t \<Rightarrow> Storer_SetReference g (t, HashReference c)))"

text \<open>\<^verbatim>\<open>(*Worktree).Commit\<close>.\<close>

definition Worktree_Commit ::
  "'w git_env \<Rightarrow> string \<Rightarrow> CommitOptions \<Rightarrow> 'w git_repository
     \<Rightarrow> (lib_error + hash) \<times> 'w git_repository" where
  "Worktree_Commit G msg opts0 g =
     (case CommitOptions_Validate opts0 g of
        Inl err \<Rightarrow> (Inl err, g)
      | Inr opts \<Rightarrow>
          (case Repository_Worktree g of
             Inl err \<Rightarrow> (Inl err, g)
           | Inr w \<Rightarrow>
               (case (if CommitAll opts then wt_AddModified G w else Inr w) of
                  Inl err \<Rightarrow> (Inl err, g)
                | Inr w1 \<Rightarrow>
                    (case wt_BuildTree G w1 of
                       Inl err \<Rightarrow> (Inl err, g\<lparr>Wt := Some w1\<rparr>)
                     | Inr t \<Rightarrow>
                         let c = CommitHash
                                   (MkCommit (Author opts)
                                      (case Committer opts of None \<Rightarrow> Author opts | Some x \<Rightarrow> x)
                                      msg t (Parents opts));
                             g1 = g\<lparr>Wt := Some w1, Objects := insert c (Objects g)\<rparr>
                         in (case updateHEAD c g1 of
                               (Inl err, g2) \<Rightarrow> (Inl err, g2)
                             | (Inr _, g2) \<Rightarrow> (Inr c, g2))))))"

text \<open>\<^verbatim>\<open>(*Worktree).Add\<close>.\<close>

definition Worktree_Add ::
  "'w git_env \<Rightarrow> string \<Rightarrow> 'w git_repository \<Rightarrow> (lib_error + unit) \<times> 'w git_repository" where
  "Worktree_Add G filename g =
     (case Repository_Worktree g of
        Inl err \<Rightarrow> (Inl err, g)
      | Inr w \<Rightarrow>
          (case wt_Add G filename w of
             Inl err \<Rightarrow> (Inl err, g)
           | Inr w1 \<Rightarrow> (Inr (), g\<lparr>Wt := Some w1\<rparr>)))"

subsection \<open>Repository and User\<close>

text \<open>
  \<^verbatim>\<open>type Repository struct { Path string; root *git.Repository }\<close>; \<open>root\<close> is nil until
  \<^verbatim>\<open>Load\<close> has opened the repository. \<^verbatim>\<open>type User struct { Name, Email, HomeFolder string }\<close>.
\<close>

record 'w Repository =
  Path :: string
  root :: "'w git_repository option"

record User =
  Name :: string
  Email :: string
  HomeFolder :: string

text \<open>\<^verbatim>\<open>func (r *Repository) CreateOrphanBranch(u *User, s string) error\<close>.\<close>

definition CreateOrphanBranch ::
  "'w git_env \<Rightarrow> 'w Repository \<Rightarrow> User \<Rightarrow> string \<Rightarrow> unit result \<times> 'w Repository" where
  "CreateOrphanBranch G r u s =
     (case root r of
        None \<Rightarrow> (Panic, r)
      | Some g \<Rightarrow>
          (let name = ''refs/heads/'' @ s;
               opts = \<lparr>Hash = ZeroHash, Branch = name, Create = True, Force = False\<rparr>;
               h = [];
               msg = ''creating branch for: '' @ s
           in (case Repository_Worktree g of
                 Inl err \<Rightarrow> (Error (WorktreeError err), r)
               | Inr _ \<Rightarrow>
                   (case Worktree_Checkout G opts g of
                      (Inl err, g1) \<Rightarrow> (Error (BranchCreateError err), r\<lparr>root := Some g1\<rparr>)
                    | (Inr _, g1) \<Rightarrow>
                        (case Worktree_Commit G msg
                                \<lparr>CommitAll = False,
                                 Author = Signature (Name u) (Email u) (Now G),
                                 Committer = None,
                                 Parents = h\<rparr> g1 of
                           (Inl err, g2) \<Rightarrow>
                             (Error (InitialCommitError err), r\<lparr>root := Some g2\<rparr>)
                         | (Inr _, g2) \<Rightarrow> (Ok (), r\<lparr>root := Some g2\<rparr>))))))"

text \<open>
  \<^verbatim>\<open>func (r *Repository) AddTagBranch(tag string, s string) error\<close>. The branch name is
  built with \<^verbatim>\<open>fmt.Sprintf("refs/heads/%s", s)\<close>; the new reference is named
  \<^verbatim>\<open>plumbing.ReferenceName(tag)\<close>, the argument as it came.
\<close>

definition AddTagBranch ::
  "'w Repository \<Rightarrow> string \<Rightarrow> string \<Rightarrow> unit result \<times> 'w Repository" where
  "AddTagBranch r tag s =
     (case root r of
        None \<Rightarrow> (Panic, r)
      | Some g \<Rightarrow>
          (let name = ''refs/heads/'' @ s
           in (case Repository_Reference g name False of
                 Inl err \<Rightarrow> (Error (Passed err), r)
               | Inr ref \<Rightarrow>
                   (case Repository_CommitObject g (ref_Hash ref) of
                      Inl err \<Rightarrow> (Error (Passed err), r)
                    | Inr commit \<Rightarrow>
                        (case Storer_SetReference g (tag, HashReference (CommitHash commit)) of
                           (Inl err, g1) \<Rightarrow> (Error (Passed err), r\<lparr>root := Some g1\<rparr>)
                         | (Inr _, g1) \<Rightarrow> (Ok (), r\<lparr>root := Some g1\<rparr>))))))"

text \<open>\<^verbatim>\<open>func (r *Repository) TagBranch(s string, create bool) error\<close>.\<close>

definition TagBranch ::
  "'w git_env \<Rightarrow> 'w Repository \<Rightarrow> string \<Rightarrow> bool \<Rightarrow> unit result \<times> 'w Repository" where
  "TagBranch G r s create =
     (case root r of
        None \<Rightarrow> (Panic, r)
      | Some g \<Rightarrow>
          (let tag = ''refs/tags/'' @ s;
               name = ''refs/heads/'' @ s
           in (case Repository_Reference g tag False of
                 Inl err \<Rightarrow> (Error (Passed err), r)
               | Inr ref \<Rightarrow>
                   (case Repository_Worktree g of
                      Inl err \<Rightarrow> (Error (WorktreeError err), r)
                    | Inr _ \<Rightarrow>
                        (case Worktree_Checkout G
                                \<lparr>Hash = ref_Hash ref, Branch = name, Create = create,
                                 Force = False\<rparr> g of
                           (Inl err, g1) \<Rightarrow>
                             (Error (BranchCreateError err), r\<lparr>root := Some g1\<rparr>)
                         | (Inr _, g1) \<Rightarrow> (Ok (), r\<lparr>root := Some g1\<rparr>))))))"

text \<open>\<^verbatim>\<open>func (r *Repository) CommitFile(u *User, filename string, msg string) error\<close>.\<close>

definition CommitFile ::
  "'w git_env \<Rightarrow> 'w Repository \<Rightarrow> User \<Rightarrow> string \<Rightarrow> string \<Rightarrow> unit result \<times> 'w Repository" where
  "CommitFile G r u filename msg =
     (case root r of
        None \<Rightarrow> (Panic, r)
      | Some g \<Rightarrow>
          (case Repository_Worktree g of
             Inl err \<Rightarrow> (Error (WorktreeError err), r)
           | Inr _ \<Rightarrow>
               (case Worktree_Add G filename g of
                  (Inl err, g1) \<Rightarrow> (Error (AddError err), r\<lparr>root := Some g1\<rparr>)
                | (Inr _, g1) \<Rightarrow>
                    (case Worktree_Commit G msg
                            \<lparr>CommitAll = True,
                             Author = Signature (Name u) (Email u) (Now G),
                             Committer = None,
                             Parents = []\<rparr> g1 of
                       (Inl err, g2) \<Rightarrow> (Error (CommitError err), r\<lparr>root := Some g2\<rparr>)
                     | (Inr _, g2) \<Rightarrow> (Ok (), r\<lparr>root := Some g2\<rparr>)))))"

text \<open>\<^verbatim>\<open>func (r *Repository) Commit(u *User, filename string, msg string) error\<close>.\<close>

definition Commit ::
  "'w git_env \<Rightarrow> 'w Repository \<Rightarrow> User \<Rightarrow> string \<Rightarrow> string \<Rightarrow> unit result \<times> 'w Repository" where
  "Commit G r u filename msg =
     (case root r of
        None \<Rightarrow> (Panic, r)
      | Some g \<Rightarrow>
          (case Repository_Worktree g of
             Inl err \<Rightarrow> (Error (WorktreeError err), r)
           | Inr _ \<Rightarrow>
               (case Worktree_Commit G msg
                       \<lparr>CommitAll = True,
                        Author = Signature (Name u) (Email u) (Now G),
                        Committer = None,
                        Parents = []\<rparr> g of
                  (Inl err, g1) \<Rightarrow> (Error (CommitError err), r\<lparr>root := Some g1\<rparr>)
                | (Inr _, g1) \<Rightarrow> (Ok (), r\<lparr>root := Some g1\<rparr>))))"

subsection \<open>The predicates over the references\<close>

text \<open>
  All three start with \<^verbatim>\<open>refs, _ := r.root.References()\<close> and go on with
  \<^verbatim>\<open>refs.ForEach(...)\<close>. \<^verbatim>\<open>References\<close> returns a nil iterator together with its error,
  the error is dropped, and \<^verbatim>\<open>ForEach\<close> on the nil iterator dereferences nil.
  The callbacks are the bodies of the loops below.
\<close>

fun ListBranches_each :: "'w git_env \<Rightarrow> reference list \<Rightarrow> string list \<Rightarrow> string list" where
  "ListBranches_each G [] b = b"
| "ListBranches_each G (ref # refs) b =
     ListBranches_each G refs
       (case snd ref of
          HashReference _ \<Rightarrow> if IsBranch (fst ref) then b @ [Short G (fst ref)] else b
        | SymbolicReference _ \<Rightarrow> b)"

definition ListBranches :: "'w git_env \<Rightarrow> 'w Repository \<Rightarrow> string list result" where
  "ListBranches G r =
     (case root r of
        None \<Rightarrow> Panic
      | Some g \<Rightarrow>
          (case Repository_References g of
             Inl _ \<Rightarrow> Panic
           | Inr refs \<Rightarrow> Ok (ListBranches_each G refs [])))"

fun BranchExists_each :: "'w git_env \<Rightarrow> string \<Rightarrow> reference list \<Rightarrow> bool \<Rightarrow> bool" where
  "BranchExists_each G n [] b = b"
| "BranchExists_each G n (ref # refs) b =
     BranchExists_each G n refs
       (case snd ref of
          HashReference _ \<Rightarrow> if IsBranch (fst ref) \<and> Short G (fst ref) = n then True else b
        | SymbolicReference _ \<Rightarrow> b)"

definition BranchExists :: "'w git_env \<Rightarrow> 'w Repository \<Rightarrow> string \<Rightarrow> bool result" where
  "BranchExists G r n =
     (case root r of
        None \<Rightarrow> Panic
      | Some g \<Rightarrow>
          (case Repository_References g of
             Inl _ \<Rightarrow> Panic
           | Inr refs \<Rightarrow> Ok (BranchExists_each G n refs False)))"

fun TagExists_each :: "'w git_env \<Rightarrow> string \<Rightarrow> reference list \<Rightarrow> bool \<Rightarrow> bool" where
  "TagExists_each G n [] b = b"
| "TagExists_each G n (ref # refs) b =
     TagExists_each G n refs
       (case snd ref of
          HashReference _ \<Rightarrow> if IsTag (fst ref) \<and> Short G (fst ref) = n then True else b
        | SymbolicReference _ \<Rightarrow> b)"

definition TagExists :: "'w git_env \<Rightarrow> 'w Repository \<Rightarrow> string \<Rightarrow> bool result" where
  "TagExists G r n =
     (case root r of
        None \<Rightarrow> Panic
      | Some g \<Rightarrow>
          (case Repository_References g of
             Inl _ \<Rightarrow> Panic
           | Inr refs \<Rightarrow> Ok (TagExists_each G n refs False)))"

section \<open>Example values\<close>

text \<open>
  A file system with no files in which every call goes through; new files get mode 0644.
\<close>

definition example_os :: os_state where
  "example_os =
     \<lparr>Files = Map.empty, CanCreate = (\<lambda>_. True), NewFileMode = 420,
      ChmodOk = (\<lambda>_. True), WriteOk = (\<lambda>_. True)\<rparr>"

definition example_join :: "string \<Rightarrow> string \<Rightarrow> string" where
  "example_join a b = a @ ''/'' @ b"

text \<open>
  Keys protected with the passphrase \<open>right\<close>, an entity with one subkey, and a stand-in
  for the OpenPGP packages: the armor of a body is the type, a bar and the body; the only
  key material that parses is \<open>key\<close>; encryption to a non-empty keyring reverses the
  message and decryption with a non-empty keyring reverses it back.
\<close>

definition example_key :: "nat \<Rightarrow> private_key" where
  "example_key i = \<lparr>KeyId = i, pk_Encrypted = True, pk_Protection = ''right''\<rparr>"

definition example_entity :: entity where
  "example_entity =
     \<lparr>ent_PrivateKey = Some (example_key 1),
      ent_Subkeys = [\<lparr>sub_PrivateKey = Some (example_key 2)\<rparr>]\<rparr>"

definition example_lib :: "unit openpgp" where
  "example_lib =
     \<lparr>armor_Decode = (\<lambda>a. if CHR ''|'' \<in> set a
                            then Inr \<lparr>Type = takeWhile (\<lambda>c. c \<noteq> CHR ''|'') a,
                                      Body = tl (dropWhile (\<lambda>c. c \<noteq> CHR ''|'') a)\<rparr>
                            else Inl ArmorCorrupt),
      armor_Encode = (\<lambda>t. Inr (\<lambda>body. Inr (t @ ''|'' @ body))),
      ReadEntity = (\<lambda>b. if b = ''key'' then Inr example_entity else Inl PacketError),
      openpgp_Encrypt = (\<lambda>keys. if keys = [] then Inl ErrKeyIncorrect
                                  else Inr (\<lambda>m. Written (rev m))),
      ReadMessage = (\<lambda>c p s. if entityList s = [] then (Inl ErrKeyIncorrect, s)
                              else (Inr \<lparr>UnverifiedBody = Inr (rev c)\<rparr>, s))\<rparr>"

definition example_PGP :: "bytes \<Rightarrow> bytes \<Rightarrow> bool \<Rightarrow> unit PGP" where
  "example_PGP k m e = \<lparr>PrivateKey = k, Passphrase = (), Message = m, Encrypted = e\<rparr>"

text \<open>A session with the given keyring, in which the given lines are typed one after another.\<close>

definition example_session :: "entity list \<Rightarrow> bytes list \<Rightarrow> session" where
  "example_session keys typed =
     \<lparr>entityList = keys, Terminal = \<lparr>Reads = map (\<lambda>b. (b, True)) typed, Printed = []\<rparr>\<rparr>"

text \<open>
  For package git: a work tree that is just the tree it would commit, a repository with one
  branch that \<^verbatim>\<open>HEAD\<close> names and one commit on it, and a user.
\<close>

definition example_env :: "nat git_env" where
  "example_env =
     \<lparr>Now = 1500000000,
      Short = (\<lambda>n. if IsBranch n then drop 11 n else if IsTag n then drop 10 n else n),
      wt_Reset = (\<lambda>c w. case c of CommitHash cm \<Rightarrow> Inr (Commit_TreeHash cm)
                                | _ \<Rightarrow> Inl ErrObjectNotFound),
      wt_Add = (\<lambda>p w. Inr (Suc w)),
      wt_AddModified = (\<lambda>w. Inr w),
      wt_BuildTree = (\<lambda>w. Inr w)\<rparr>"

text \<open>
  The same with a modified tracked file in the work tree: staging what is modified
  changes the tree that will be committed.
\<close>

definition example_staging_env :: "nat git_env" where
  "example_staging_env = example_env\<lparr>wt_AddModified := (\<lambda>w. Inr (Suc w))\<rparr>"

definition example_commit :: commit where
  "example_commit =
     MkCommit (Signature ''Ann'' ''ann@example.org'' 1400000000)
       (Signature ''Ann'' ''ann@example.org'' 1400000000) ''first secret'' 7 []"

definition example_git :: "string \<Rightarrow> bool \<Rightarrow> nat git_repository" where
  "example_git branch fails =
     \<lparr>Refs = [(''HEAD'', SymbolicReference (''refs/heads/'' @ branch)),
              (''refs/heads/'' @ branch, HashReference (CommitHash example_commit))],
      Objects = {CommitHash example_commit},
      Wt = Some 7,
      RefsFail = fails\<rparr>"

definition example_repository :: "string \<Rightarrow> bool \<Rightarrow> nat Repository" where
  "example_repository branch fails =
     \<lparr>Path = ''/repo'', root = Some (example_git branch fails)\<rparr>"

definition example_user :: User where
  "example_user = \<lparr>Name = ''Bob'', Email = ''bob@example.org'', HomeFolder = ''/home/bob''\<rparr>"

section \<open>Properties of WriteFile\<close>

lemma WriteFile_success_state:
  assumes "WriteFile join os f repoPath filename = (Ok (), os1)"
  shows "Files os1 (join repoPath filename) = Some \<lparr>Mode = 384, Content = Message f\<rparr>"
  using assms
  by (auto simp: WriteFile_def Let_def os_Open_def os_Create_def File_Chmod_def File_Write_def
      split: if_splits option.splits sum.splits prod.splits)

lemma WriteFile_exists:
  assumes "Files os (join repoPath filename) = Some fl" and "owner_readable fl"
    and "Encrypted f" and "Message f \<noteq> []"
  shows "WriteFile join os f repoPath filename = (Error FileExists, os)"
  using assms by (simp add: WriteFile_def os_Open_def)

lemma owner_readable_0600: "owner_readable \<lparr>Mode = 384, Content = c\<rparr>"
  by (simp add: owner_readable_def)

text \<open>
  Claim C5, as amended. WriteFile never writes a message whose flag says it is not
  encrypted: the call fails and the file system is returned as it was, so no file is
  created. The error is \<open>RefusePlaintextWrite\<close> when the message is not empty; an empty
  message is turned down one check earlier, with \<open>EmptyMessage\<close>.
\<close>

theorem WriteFile_plaintext_guard:
  "\<not> Encrypted f \<Longrightarrow>
     WriteFile join os f repoPath filename =
       (Error (if Message f = [] then EmptyMessage else RefusePlaintextWrite), os)"
  by (simp add: WriteFile_def)

theorem WriteFile_plaintext_guard_witness:
  "WriteFile example_join example_os (example_PGP [] ''plain'' False) ''repo'' ''secret'' =
     (Error RefusePlaintextWrite, example_os)"
  using WriteFile_plaintext_guard
    [of "example_PGP [] ''plain'' False" example_join example_os "''repo''" "''secret''"]
  by (simp add: example_PGP_def)

text \<open>
  Claim C5 as it was stated fails for the empty message: the error is \<open>EmptyMessage\<close>,
  not \<open>RefusePlaintextWrite\<close>.
\<close>

theorem WriteFile_plaintext_guard_counterexample:
  "fst (WriteFile example_join example_os (example_PGP [] [] False) ''repo'' ''secret'')
     = Error EmptyMessage
   \<and> fst (WriteFile example_join example_os (example_PGP [] [] False) ''repo'' ''secret'')
     \<noteq> Error RefusePlaintextWrite"
  by (simp add: WriteFile_def example_PGP_def)

text \<open>
  Claim C6. At a path where no file exists yet and where creating, chmod and writing go
  through, WriteFile of a non-empty encrypted message succeeds and leaves a file of mode
  0600 with the message as its content; a second WriteFile to the same path, of any
  non-empty encrypted message, fails with \<open>FileExists\<close> and returns the file system as the
  first call left it, so the content of the file is unchanged.
\<close>

theorem WriteFile_write_once:
  assumes "Encrypted f" and "Message f \<noteq> []" and "Encrypted f'" and "Message f' \<noteq> []"
    and "Files os (join repoPath filename) = None"
    and "CanCreate os (join repoPath filename)"
    and "ChmodOk os (join repoPath filename)"
    and "WriteOk os (join repoPath filename)"
  shows "\<exists>os1. WriteFile join os f repoPath filename = (Ok (), os1)
           \<and> Files os1 (join repoPath filename) = Some \<lparr>Mode = 384, Content = Message f\<rparr>
           \<and> WriteFile join os1 f' repoPath filename = (Error FileExists, os1)"
proof -
  obtain os1 where first: "WriteFile join os f repoPath filename = (Ok (), os1)"
    using assms
    by (simp add: WriteFile_def Let_def os_Open_def os_Create_def File_Chmod_def File_Write_def)
  have stored: "Files os1 (join repoPath filename) = Some \<lparr>Mode = 384, Content = Message f\<rparr>"
    using first by (rule WriteFile_success_state)
  have "WriteFile join os1 f' repoPath filename = (Error FileExists, os1)"
    using stored owner_readable_0600 assms(3,4) by (rule WriteFile_exists)
  with first stored show ?thesis by blast
qed

theorem WriteFile_write_once_witness:
  "\<exists>os1. WriteFile example_join example_os (example_PGP [] ''cipher'' True) ''repo'' ''secret''
            = (Ok (), os1)
         \<and> Files os1 ''repo/secret'' = Some \<lparr>Mode = 384, Content = ''cipher''\<rparr>
         \<and> WriteFile example_join os1 (example_PGP [] ''other'' True) ''repo'' ''secret''
            = (Error FileExists, os1)"
  using WriteFile_write_once
    [of "example_PGP [] ''cipher'' True" "example_PGP [] ''other'' True" example_os
      example_join "''repo''" "''secret''"]
  by (simp add: example_os_def example_join_def example_PGP_def)

section \<open>Properties of Keyring\<close>

lemma shellPrompt_reads: "Reads (snd (shellPrompt t)) = tl (Reads t)"
  by (simp add: shellPrompt_def ReadPassword_def Print_def Let_def split: list.splits prod.splits)

lemma shellPrompt_printed:
  "Printed (snd (shellPrompt t)) =
     Printed t @ ''Enter passphrase: '' #
       (case Reads t of [] \<Rightarrow> [] | r # rs \<Rightarrow> if snd r then [[CHR 0x0A]] else [])"
  by (simp add: shellPrompt_def ReadPassword_def Print_def Let_def split: list.splits prod.splits)

lemma Keyring_terminal: "Terminal (snd (Keyring lib f s)) = snd (shellPrompt (Terminal s))"
  by (simp add: Keyring_def Let_def split: prod.splits sum.splits option.splits)

lemma Keyring_entityList_cases:
  "(case fst (Keyring lib f s) of
      Ok _ \<Rightarrow> \<exists>ent. entityList (snd (Keyring lib f s)) = entityList s @ [ent]
    | Error e \<Rightarrow> entityList (snd (Keyring lib f s)) = entityList s
        \<and> ((\<exists>x. e = NotArmored x) \<or> e = NotPrivateKey
             \<or> (\<exists>x. e = KeyParseError x) \<or> (\<exists>x. e = KeyDecryptFailed x))
    | Panic \<Rightarrow> entityList (snd (Keyring lib f s)) = entityList s)"
  by (simp add: Keyring_def Let_def split: prod.splits sum.splits option.splits)

lemma decrypt_subkeys_Some:
  "decrypt_subkeys p ks = Some ks' \<Longrightarrow>
     ks' = map (\<lambda>k. k\<lparr>sub_PrivateKey := unlock p (sub_PrivateKey k)\<rparr>) ks"
  by (induction ks arbitrary: ks') (auto simp: unlock_def split: option.splits)

lemma decrypt_subkeys_total:
  "\<forall>k \<in> set ks. sub_PrivateKey k \<noteq> None \<Longrightarrow> \<exists>ks'. decrypt_subkeys p ks = Some ks'"
  by (induction ks) (auto split: option.splits)

text \<open>
  Claim C8. A call of Keyring that returns an error returns one of its four errors (the key
  bytes are not armored, the block is not a private key block, the entity cannot be read,
  the passphrase does not decrypt the main key) and leaves the keyring of the session as it
  was; a call that returns without an error has appended exactly one entity; and the
  keyring changes only in a call that returns without an error.
\<close>

theorem Keyring_atomic:
  "(\<forall>e. fst (Keyring lib f s) = Error e \<longrightarrow>
       entityList (snd (Keyring lib f s)) = entityList s
       \<and> ((\<exists>x. e = NotArmored x) \<or> e = NotPrivateKey
            \<or> (\<exists>x. e = KeyParseError x) \<or> (\<exists>x. e = KeyDecryptFailed x)))
   \<and> (fst (Keyring lib f s) = Ok () \<longrightarrow>
        (\<exists>ent. entityList (snd (Keyring lib f s)) = entityList s @ [ent]))
   \<and> (entityList (snd (Keyring lib f s)) \<noteq> entityList s \<longrightarrow> fst (Keyring lib f s) = Ok ())"
  using Keyring_entityList_cases [of lib f s]
  by (cases "fst (Keyring lib f s)") auto

theorem Keyring_atomic_witness:
  "fst (Keyring example_lib (example_PGP ''PGP PRIVATE KEY BLOCK|key'' [] True)
          (example_session [example_entity] [''wrong'']))
     = Error (KeyDecryptFailed ChecksumFailure)
   \<and> entityList (snd (Keyring example_lib (example_PGP ''PGP PRIVATE KEY BLOCK|key'' [] True)
          (example_session [example_entity] [''wrong'']))) = [example_entity]"
  using Keyring_atomic [of example_lib "example_PGP ''PGP PRIVATE KEY BLOCK|key'' [] True"
      "example_session [example_entity] [''wrong'']"]
  by (simp add: Keyring_def shellPrompt_def ReadPassword_def Print_def PrivateKey_Decrypt_def
      PrivateKeyType_def example_lib_def example_PGP_def example_session_def example_entity_def
      example_key_def)

text \<open>
  Claim C9. Whatever the key bytes are (armored or not, a private key or not, protected or
  not), the terminal after a call of Keyring is the terminal after one call of shellPrompt:
  one read is taken from it and the prompt text is printed once more. When the call
  succeeds, the entity it appends is the entity that was read, with \<^verbatim>\<open>Decrypt\<close> applied
  to the main key and to the key of every subkey, each time with the bytes that one prompt
  returned.
\<close>

theorem Keyring_prompts_once:
  "Terminal (snd (Keyring lib f s)) = snd (shellPrompt (Terminal s))
   \<and> Reads (Terminal (snd (Keyring lib f s))) = tl (Reads (Terminal s))
   \<and> length (filter (\<lambda>x. x = ''Enter passphrase: '') (Printed (Terminal (snd (Keyring lib f s)))))
       = Suc (length (filter (\<lambda>x. x = ''Enter passphrase: '') (Printed (Terminal s))))
   \<and> (fst (Keyring lib f s) = Ok () \<longrightarrow>
        (\<exists>blk ent. armor_Decode lib (PrivateKey f) = Inr blk
           \<and> ReadEntity lib (Body blk) = Inr ent
           \<and> entityList (snd (Keyring lib f s)) = entityList s @
               [\<lparr>ent_PrivateKey = unlock (fst (shellPrompt (Terminal s))) (ent_PrivateKey ent),
                 ent_Subkeys = map (\<lambda>k. k\<lparr>sub_PrivateKey :=
                     unlock (fst (shellPrompt (Terminal s))) (sub_PrivateKey k)\<rparr>) (ent_Subkeys ent)\<rparr>]))"
proof (intro conjI impI)
  show t: "Terminal (snd (Keyring lib f s)) = snd (shellPrompt (Terminal s))"
    by (rule Keyring_terminal)
  show "Reads (Terminal (snd (Keyring lib f s))) = tl (Reads (Terminal s))"
    by (simp add: t shellPrompt_reads)
  show "length (filter (\<lambda>x. x = ''Enter passphrase: '') (Printed (Terminal (snd (Keyring lib f s)))))
       = Suc (length (filter (\<lambda>x. x = ''Enter passphrase: '') (Printed (Terminal s))))"
    by (simp add: t shellPrompt_printed split: list.splits)
next
  assume ok: "fst (Keyring lib f s) = Ok ()"
  obtain p t1 where sp: "shellPrompt (Terminal s) = (p, t1)"
    by (cases "shellPrompt (Terminal s)")
  from ok sp obtain blk ent ent1 sks where
    blk: "armor_Decode lib (PrivateKey f) = Inr blk"
    and ent: "ReadEntity lib (Body blk) = Inr ent"
    and ent1: "ent1 = ent\<lparr>ent_PrivateKey := unlock p (ent_PrivateKey ent)\<rparr>"
    and sks: "decrypt_subkeys p (ent_Subkeys ent1) = Some sks"
    and res: "entityList (snd (Keyring lib f s)) = entityList s @ [ent1\<lparr>ent_Subkeys := sks\<rparr>]"
    by (auto simp: Keyring_def Let_def unlock_def PrivateKey_Decrypt_def
        split: prod.splits sum.splits option.splits if_splits)
  from sks ent1
  have "sks = map (\<lambda>k. k\<lparr>sub_PrivateKey := unlock p (sub_PrivateKey k)\<rparr>) (ent_Subkeys ent)"
    by (simp add: decrypt_subkeys_Some)
  with blk ent ent1 res sp
  show "\<exists>blk ent. armor_Decode lib (PrivateKey f) = Inr blk
           \<and> ReadEntity lib (Body blk) = Inr ent
           \<and> entityList (snd (Keyring lib f s)) = entityList s @
               [\<lparr>ent_PrivateKey = unlock (fst (shellPrompt (Terminal s))) (ent_PrivateKey ent),
                 ent_Subkeys = map (\<lambda>k. k\<lparr>sub_PrivateKey :=
                     unlock (fst (shellPrompt (Terminal s))) (sub_PrivateKey k)\<rparr>) (ent_Subkeys ent)\<rparr>]"
    by auto
qed

theorem Keyring_prompts_once_witness:
  "fst (Keyring example_lib (example_PGP ''not a key'' [] True)
          (example_session [] [''right'', ''more''])) = Error (NotArmored ArmorCorrupt)
   \<and> Terminal (snd (Keyring example_lib (example_PGP ''not a key'' [] True)
          (example_session [] [''right'', ''more''])))
       = \<lparr>Reads = [(''more'', True)], Printed = [''Enter passphrase: '', [CHR 0x0A]]\<rparr>
   \<and> fst (Keyring example_lib (example_PGP ''PGP PRIVATE KEY BLOCK|key'' [] True)
          (example_session [] [''right'', ''more''])) = Ok ()
   \<and> snd (Keyring example_lib (example_PGP ''PGP PRIVATE KEY BLOCK|key'' [] True)
          (example_session [] [''right'', ''more'']))
       = \<lparr>entityList =
            [\<lparr>ent_PrivateKey = Some ((example_key 1)\<lparr>pk_Encrypted := False\<rparr>),
              ent_Subkeys = [\<lparr>sub_PrivateKey = Some ((example_key 2)\<lparr>pk_Encrypted := False\<rparr>)\<rparr>]\<rparr>],
          Terminal = \<lparr>Reads = [(''more'', True)], Printed = [''Enter passphrase: '', [CHR 0x0A]]\<rparr>\<rparr>"
  using Keyring_prompts_once [of example_lib "example_PGP ''not a key'' [] True"
      "example_session [] [''right'', ''more'']"]
    Keyring_prompts_once [of example_lib "example_PGP ''PGP PRIVATE KEY BLOCK|key'' [] True"
      "example_session [] [''right'', ''more'']"]
  by (simp add: Keyring_def shellPrompt_def ReadPassword_def Print_def PrivateKey_Decrypt_def
      PrivateKeyType_def example_lib_def example_PGP_def example_session_def example_entity_def
      example_key_def)

text \<open>
  Claim C4, as amended. Given key bytes that parse to an entity whose main key is
  protected by a passphrase, Keyring takes exactly one read from the passphrase source
  and tries only what that read returned. If it is not the passphrase of the key, the call
  fails with \<open>KeyDecryptFailed\<close> and the keyring is as it was. If it is, and every subkey
  carries a private key, the call succeeds and appends the entity with its main key
  decrypted. The keyring changes only when the passphrase read was the right one.
\<close>

theorem Keyring_single_attempt:
  assumes "armor_Decode lib (PrivateKey f) = Inr blk" and "Type blk = PrivateKeyType"
    and "ReadEntity lib (Body blk) = Inr ent"
    and "ent_PrivateKey ent = Some pk" and "pk_Encrypted pk"
  shows "Reads (Terminal (snd (Keyring lib f s))) = tl (Reads (Terminal s))
    \<and> (fst (shellPrompt (Terminal s)) \<noteq> pk_Protection pk \<longrightarrow>
         fst (Keyring lib f s) = Error (KeyDecryptFailed ChecksumFailure)
         \<and> entityList (snd (Keyring lib f s)) = entityList s)
    \<and> (fst (shellPrompt (Terminal s)) = pk_Protection pk \<longrightarrow>
         (\<forall>k \<in> set (ent_Subkeys ent). sub_PrivateKey k \<noteq> None) \<longrightarrow>
         fst (Keyring lib f s) = Ok ()
         \<and> (\<exists>e. entityList (snd (Keyring lib f s)) = entityList s @ [e]
               \<and> ent_PrivateKey e = Some (pk\<lparr>pk_Encrypted := False\<rparr>)))
    \<and> (entityList (snd (Keyring lib f s)) \<noteq> entityList s \<longrightarrow>
         fst (shellPrompt (Terminal s)) = pk_Protection pk)"
proof -
  obtain p t1 where sp: "shellPrompt (Terminal s) = (p, t1)"
    by (cases "shellPrompt (Terminal s)")
  have reads: "Reads (Terminal (snd (Keyring lib f s))) = tl (Reads (Terminal s))"
    by (simp add: Keyring_terminal shellPrompt_reads)
  have wrong: "fst (Keyring lib f s) = Error (KeyDecryptFailed ChecksumFailure)
      \<and> entityList (snd (Keyring lib f s)) = entityList s"
    if "p \<noteq> pk_Protection pk"
    using assms sp that by (simp add: Keyring_def PrivateKey_Decrypt_def)
  have right: "fst (Keyring lib f s) = Ok ()
      \<and> (\<exists>e. entityList (snd (Keyring lib f s)) = entityList s @ [e]
            \<and> ent_PrivateKey e = Some (pk\<lparr>pk_Encrypted := False\<rparr>))"
    if p: "p = pk_Protection pk"
      and subs: "\<forall>k \<in> set (ent_Subkeys ent). sub_PrivateKey k \<noteq> None"
  proof -
    from subs obtain sks where "decrypt_subkeys p (ent_Subkeys ent) = Some sks"
      using decrypt_subkeys_total by blast
    with assms sp p show ?thesis
      by (simp add: Keyring_def PrivateKey_Decrypt_def)
  qed
  from reads wrong right sp show ?thesis by auto
qed

theorem Keyring_single_attempt_witness:
  "fst (Keyring example_lib (example_PGP ''PGP PRIVATE KEY BLOCK|key'' [] True)
          (example_session [] [''right'', ''unused''])) = Ok ()
   \<and> Reads (Terminal (snd (Keyring example_lib (example_PGP ''PGP PRIVATE KEY BLOCK|key'' [] True)
          (example_session [] [''right'', ''unused''])))) = [(''unused'', True)]
   \<and> (\<exists>e. entityList (snd (Keyring example_lib (example_PGP ''PGP PRIVATE KEY BLOCK|key'' [] True)
          (example_session [] [''right'', ''unused'']))) = [e]
         \<and> ent_PrivateKey e = Some ((example_key 1)\<lparr>pk_Encrypted := False\<rparr>))"
  using Keyring_single_attempt
    [of example_lib "example_PGP ''PGP PRIVATE KEY BLOCK|key'' [] True"
      "\<lparr>Type = ''PGP PRIVATE KEY BLOCK'', Body = ''key''\<rparr>" example_entity "example_key 1"
      "example_session [] [''right'', ''unused'']"]
  by (simp add: example_key_def example_entity_def example_lib_def example_PGP_def
      example_session_def shellPrompt_def ReadPassword_def Print_def PrivateKeyType_def)

text \<open>
  Claim C4 as it was stated fails: with \<open>wrong\<close> typed first and \<open>right\<close> typed second,
  Keyring reads \<open>wrong\<close>, fails, and returns with \<open>right\<close> still unread, although
  \<open>right\<close> decrypts the key. It does not prompt again.
\<close>

theorem Keyring_retry_counterexample:
  "fst (Keyring example_lib (example_PGP ''PGP PRIVATE KEY BLOCK|key'' [] True)
          (example_session [] [''wrong'', ''right''])) = Error (KeyDecryptFailed ChecksumFailure)
   \<and> Reads (Terminal (snd (Keyring example_lib (example_PGP ''PGP PRIVATE KEY BLOCK|key'' [] True)
          (example_session [] [''wrong'', ''right''])))) = [(''right'', True)]
   \<and> fst (PrivateKey_Decrypt (example_key 1) ''right'') = Inr ()"
  by (simp add: Keyring_def shellPrompt_def ReadPassword_def Print_def PrivateKey_Decrypt_def
      PrivateKeyType_def example_lib_def example_PGP_def example_session_def example_entity_def
      example_key_def)

section \<open>Encrypt, then Decrypt\<close>

lemma example_armor: "armor_contract example_lib ''PGP MESSAGE''"
  by (simp add: armor_contract_def example_lib_def)

lemma example_keyring: "keyring_valid example_lib (example_session [example_entity] [])"
  by (simp add: keyring_valid_def example_lib_def example_session_def)

text \<open>
  Claim C3. Let the armor of type \<open>PGP MESSAGE\<close> decode to what was encoded and let the
  keyring of the session be valid. Then Encrypt of a message whose flag is false succeeds
  and sets the flag, and Decrypt of the result succeeds and gives back the value Encrypt
  started from: the same bytes, with the flag false again.
\<close>

theorem Encrypt_Decrypt_round_trip:
  assumes "armor_contract lib ''PGP MESSAGE''" and "keyring_valid lib s" and "\<not> Encrypted f"
  shows "\<exists>f1 s1. Encrypt lib s f = Ok f1 \<and> Encrypted f1 \<and> Decrypt lib s f1 = (Ok f, s1)"
proof -
  from assms(1) obtain b where
    b: "armor_Encode lib ''PGP MESSAGE'' = Inr b"
    and armored: "\<And>body. \<exists>a. b body = Inr a
        \<and> armor_Decode lib a = Inr \<lparr>Type = ''PGP MESSAGE'', Body = body\<rparr>"
    unfolding armor_contract_def by blast
  from assms(2) obtain e where
    e: "openpgp_Encrypt lib (entityList s) = Inr e"
    and enc: "\<And>m. \<exists>c. e m = Written c
        \<and> (\<forall>p. \<exists>s1. ReadMessage lib c p s = (Inr \<lparr>UnverifiedBody = Inr m\<rparr>, s1))"
    unfolding keyring_valid_def by blast
  from enc [of "Message f"] obtain c s1 where
    c: "e (Message f) = Written c"
    and rd: "ReadMessage lib c (Passphrase f) s = (Inr \<lparr>UnverifiedBody = Inr (Message f)\<rparr>, s1)"
    by blast
  from armored [of c] obtain a where
    a: "b c = Inr a" and dec: "armor_Decode lib a = Inr \<lparr>Type = ''PGP MESSAGE'', Body = c\<rparr>"
    by blast
  let ?f1 = "f\<lparr>Encrypted := True, Message := a\<rparr>"
  have 1: "Encrypt lib s f = Ok ?f1"
    using assms(3) b e c a by (simp add: Encrypt_def)
  have 2: "Decrypt lib s ?f1 = (Ok f, s1)"
    using assms(3) dec rd by (simp add: Decrypt_def)
  from 1 2 show ?thesis by auto
qed

theorem Encrypt_Decrypt_round_trip_witness:
  "\<exists>f1 s1. Encrypt example_lib (example_session [example_entity] [])
              (example_PGP [] ''secret'' False) = Ok f1
     \<and> Encrypted f1
     \<and> Decrypt example_lib (example_session [example_entity] []) f1 =
         (Ok (example_PGP [] ''secret'' False), s1)"
  using Encrypt_Decrypt_round_trip [OF example_armor example_keyring,
      of "example_PGP [] ''secret'' False"]
  by (simp add: example_PGP_def)

section \<open>Properties of package git\<close>

lemmas example_git_defs =
  example_env_def example_commit_def example_git_def example_repository_def example_user_def

lemmas go_git_defs =
  Worktree_Checkout_def Worktree_Commit_def Worktree_Reset_def Worktree_Add_def
  createBranch_def getCommitFromCheckoutOptions_def setHEADToCommit_def setHEADToBranch_def
  setHEADCommit_def CommitOptions_Validate_def updateHEAD_def
  Repository_Reference_def Repository_Head_def Repository_CommitObject_def
  Repository_Worktree_def Repository_References_def ResolveReference_def
  Storer_Reference_def Storer_SetReference_def resolveReference.simps IsBranch_def IsTag_def

lemma map_of_set_ref: "map_of (set_ref (n, v) rs) = (map_of rs)(n \<mapsto> v)"
  by (induction rs) auto

lemma IsBranch_heads: "IsBranch (''refs/heads/'' @ s)"
  by (simp add: IsBranch_def)

lemma tag_name_differs: "tag \<noteq> ''refs/tags/'' @ tag"
proof
  assume "tag = ''refs/tags/'' @ tag"
  then have "length tag = length (''refs/tags/'' @ tag)" by (rule arg_cong)
  then show False by simp
qed

lemma ref_Hash_commit:
  "ref_Hash (n, x) = CommitHash c \<Longrightarrow> x = HashReference (CommitHash c)"
  by (cases x) auto

text \<open>
  Claim C1 fails on the code. In a repository that has no reference \<open>refs/tags/tag\<close>
  yet, a successful \<open>AddTagBranch tag s\<close> stores the tip of the branch under the name
  \<open>tag\<close> as it was passed, not under \<open>refs/tags/tag\<close>; \<open>TagBranch tag\<close>, which looks
  the tag up under \<open>refs/tags/tag\<close>, then returns the error that the reference was not
  found and changes nothing, so no branch \<open>tag\<close> comes to exist.
\<close>

theorem AddTagBranch_then_TagBranch:
  assumes "root r = Some g"
    and "map_of (Refs g) (''refs/tags/'' @ tag) = None"
    and "fst (AddTagBranch r tag s) = Ok ()"
  shows "TagBranch G (snd (AddTagBranch r tag s)) tag create
           = (Error (Passed ErrReferenceNotFound), snd (AddTagBranch r tag s))
    \<and> (\<exists>g1 c. root (snd (AddTagBranch r tag s)) = Some g1
          \<and> map_of (Refs g) (''refs/heads/'' @ s) = Some (HashReference (CommitHash c))
          \<and> map_of (Refs g1) tag = Some (HashReference (CommitHash c))
          \<and> map_of (Refs g1) (''refs/tags/'' @ tag) = None)"
proof -
  obtain r1 where res: "AddTagBranch r tag s = (Ok (), r1)"
    using assms(3) by (cases "AddTagBranch r tag s") auto
  from assms(1) res obtain c where
    tip: "map_of (Refs g) (''refs/heads/'' @ s) = Some (HashReference (CommitHash c))"
    and r1: "r1 = r\<lparr>root := Some (g\<lparr>Refs := set_ref (tag, HashReference (CommitHash c)) (Refs g)\<rparr>)\<rparr>"
    by (auto simp: AddTagBranch_def Repository_Reference_def Storer_Reference_def
        Repository_CommitObject_def Storer_SetReference_def Let_def
        split: option.splits sum.splits hash.splits if_splits dest!: ref_Hash_commit)
  let ?g1 = "g\<lparr>Refs := set_ref (tag, HashReference (CommitHash c)) (Refs g)\<rparr>"
  have stored: "map_of (Refs ?g1) tag = Some (HashReference (CommitHash c))"
    by (simp add: map_of_set_ref)
  have absent: "map_of (Refs ?g1) (''refs/tags/'' @ tag) = None"
    using assms(2) tag_name_differs [of tag] by (simp add: map_of_set_ref)
  have "TagBranch G r1 tag create = (Error (Passed ErrReferenceNotFound), r1)"
    using absent by (simp add: r1 TagBranch_def Repository_Reference_def Storer_Reference_def)
  with tip stored absent r1 res show ?thesis by simp
qed

theorem AddTagBranch_then_TagBranch_witness:
  "fst (AddTagBranch (example_repository ''alpha'' False) ''v1'' ''alpha'') = Ok ()
   \<and> fst (TagBranch example_env
            (snd (AddTagBranch (example_repository ''alpha'' False) ''v1'' ''alpha'')) ''v1'' True)
       = Error (Passed ErrReferenceNotFound)
   \<and> BranchExists example_env
        (snd (TagBranch example_env
            (snd (AddTagBranch (example_repository ''alpha'' False) ''v1'' ''alpha'')) ''v1'' True))
        ''v1'' = Ok False"
  using AddTagBranch_then_TagBranch
    [where r = "example_repository ''alpha'' False" and g = "example_git ''alpha'' False"
      and tag = "''v1''" and s = "''alpha''" and G = example_env and create = True]
  by (simp add: example_git_defs AddTagBranch_def TagBranch_def BranchExists_def go_git_defs
      Let_def)

text \<open>
  With the tag where TagBranch looks for it, TagBranch with \<open>create\<close> set does create the
  branch at the commit of the tag.
\<close>

lemma TagBranch_creates_branch:
  assumes "root r = Some g" and "Wt g = Some w"
    and "map_of (Refs g) (''refs/tags/'' @ s) = Some (HashReference c)" and "c \<noteq> ZeroHash"
    and "map_of (Refs g) (''refs/heads/'' @ s) = None"
    and "wt_Reset G c w = Inr w1"
  shows "fst (TagBranch G r s True) = Ok ()
     \<and> (\<exists>g1. root (snd (TagBranch G r s True)) = Some g1
         \<and> map_of (Refs g1) (''refs/heads/'' @ s) = Some (HashReference c))"
  using assms IsBranch_heads [of s]
  by (simp add: TagBranch_def Worktree_Checkout_def Worktree_Reset_def createBranch_def
      getCommitFromCheckoutOptions_def setHEADToBranch_def setHEADCommit_def
      Repository_Reference_def Repository_Worktree_def Storer_Reference_def
      Storer_SetReference_def map_of_set_ref Let_def)

text \<open>
  Claim C2 fails on the code. Let \<^verbatim>\<open>HEAD\<close> name a branch with a tip, let the branch
  \<open>s\<close> not exist, and let the reset of the work tree and the building of the tree go
  through. Then CreateOrphanBranch succeeds, and the commit it puts on \<open>refs/heads/s\<close>
  has one parent, the tip of the branch \<^verbatim>\<open>HEAD\<close> named: the checkout starts the new branch
  at that tip, and the commit, given no parents, takes the commit \<^verbatim>\<open>HEAD\<close> resolves to.
  The tip of the branch \<^verbatim>\<open>HEAD\<close> named is unchanged.
\<close>

theorem CreateOrphanBranch_parent:
  assumes "root r = Some g" and "Wt g = Some w"
    and "map_of (Refs g) ''HEAD'' = Some (SymbolicReference head_branch)"
    and "map_of (Refs g) head_branch = Some (HashReference tip)" and "tip \<noteq> ZeroHash"
    and "map_of (Refs g) (''refs/heads/'' @ s) = None"
    and "wt_Reset G tip w = Inr w1" and "wt_BuildTree G w1 = Inr t"
  shows "fst (CreateOrphanBranch G r u s) = Ok ()
     \<and> (\<exists>g1. root (snd (CreateOrphanBranch G r u s)) = Some g1
         \<and> map_of (Refs g1) (''refs/heads/'' @ s) =
             Some (HashReference (CommitHash
               (MkCommit (Signature (Name u) (Email u) (Now G))
                  (Signature (Name u) (Email u) (Now G))
                  (''creating branch for: '' @ s) t [tip])))
         \<and> map_of (Refs g1) head_branch = Some (HashReference tip))"
proof -
  have ne1: "head_branch \<noteq> ''refs/heads/'' @ s" using assms(4,6) by auto
  have ne2: "head_branch \<noteq> ''HEAD''" using assms(3,4) by auto
  show ?thesis
    using assms ne1 ne2 IsBranch_heads [of s]
    by (simp add: CreateOrphanBranch_def Worktree_Checkout_def Worktree_Commit_def
        Worktree_Reset_def createBranch_def getCommitFromCheckoutOptions_def
        setHEADToBranch_def setHEADCommit_def CommitOptions_Validate_def updateHEAD_def
        Repository_Head_def Repository_Worktree_def ResolveReference_def Storer_Reference_def
        Storer_SetReference_def resolveReference.simps map_of_set_ref Let_def)
qed

theorem CreateOrphanBranch_parent_witness:
  "fst (CreateOrphanBranch example_env (example_repository ''main'' False) example_user ''alpha'')
     = Ok ()
   \<and> (\<exists>g1 c. root (snd (CreateOrphanBranch example_env (example_repository ''main'' False)
                     example_user ''alpha'')) = Some g1
         \<and> map_of (Refs g1) ''refs/heads/alpha'' = Some (HashReference (CommitHash c))
         \<and> Commit_ParentHashes c = [CommitHash example_commit]
         \<and> map_of (Refs g1) ''refs/heads/main'' = Some (HashReference (CommitHash example_commit)))
   \<and> BranchExists example_env
        (snd (CreateOrphanBranch example_env (example_repository ''main'' False)
                example_user ''alpha'')) ''alpha'' = Ok True"
  using CreateOrphanBranch_parent
    [where r = "example_repository ''main'' False" and g = "example_git ''main'' False"
      and w = 7 and head_branch = "''refs/heads/main''" and tip = "CommitHash example_commit"
      and s = "''alpha''" and G = example_env and ?w1.0 = 7 and t = 7 and u = example_user]
  by (simp add: example_git_defs CreateOrphanBranch_def BranchExists_def go_git_defs Let_def)

text \<open>
  Claim C7 fails on the code. When listing the references of a loaded repository fails,
  each of BranchExists, TagExists and ListBranches panics: the error of
  \<^verbatim>\<open>References()\<close> is dropped and \<^verbatim>\<open>ForEach\<close> is called on the nil iterator that came
  with it.
\<close>

theorem predicates_panic:
  assumes "root r = Some g" and "RefsFail g"
  shows "BranchExists G r n = Panic \<and> TagExists G r n = Panic \<and> ListBranches G r = Panic"
  using assms
  by (simp add: BranchExists_def TagExists_def ListBranches_def Repository_References_def)

theorem predicates_panic_witness:
  "BranchExists example_env (example_repository ''main'' True) ''main'' = Panic
   \<and> TagExists example_env (example_repository ''main'' True) ''v1'' = Panic
   \<and> ListBranches example_env (example_repository ''main'' True) = Panic"
  using predicates_panic
    [where r = "example_repository ''main'' True" and g = "example_git ''main'' True"
      and G = example_env]
  by (simp add: example_git_defs)

lemma predicates_return:
  assumes "root r = Some g" and "\<not> RefsFail g"
  shows "BranchExists G r n = Ok (BranchExists_each G n (Refs g) False)"
    and "TagExists G r n = Ok (TagExists_each G n (Refs g) False)"
    and "ListBranches G r = Ok (ListBranches_each G (Refs g) [])"
  using assms
  by (simp_all add: BranchExists_def TagExists_def ListBranches_def Repository_References_def)

lemma Worktree_Commit_Add_free:
  "Worktree_Commit (G\<lparr>wt_Add := add\<rparr>) msg opts g = Worktree_Commit G msg opts g"
  by (simp add: Worktree_Commit_def cong: sum.case_cong if_cong)

lemma Validate_commit_all:
  "CommitOptions_Validate
      \<lparr>CommitAll = True, Author = a, Committer = None, Parents = []\<rparr> g = Inr opts \<Longrightarrow>
   opts = \<lparr>CommitAll = True, Author = a, Committer = Some a,
           Parents = (case Repository_Head g of Inl _ \<Rightarrow> [] | Inr h \<Rightarrow> [ref_Hash h])\<rparr>"
  by (auto simp: CommitOptions_Validate_def split: sum.splits if_splits)

lemma updateHEAD_Inr:
  "updateHEAD c g = (Inr x, g1) \<Longrightarrow>
   Wt g1 = Wt g \<and> Objects g1 = Objects g
   \<and> (case map_of (Refs g) ''HEAD'' of
         Some (SymbolicReference b) \<Rightarrow> map_of (Refs g1) b
       | _ \<Rightarrow> map_of (Refs g1) ''HEAD'') = Some (HashReference c)"
  by (auto simp: updateHEAD_def Storer_Reference_def Storer_SetReference_def map_of_set_ref
      split: option.splits ref_target.splits)

lemma Worktree_Commit_Inr:
  assumes "Worktree_Commit G msg opts0 g = (Inr c, g1)"
  shows "\<exists>opts w w1 t. CommitOptions_Validate opts0 g = Inr opts \<and> Wt g = Some w
     \<and> (if CommitAll opts then wt_AddModified G w else Inr w) = Inr w1
     \<and> wt_BuildTree G w1 = Inr t
     \<and> c = CommitHash (MkCommit (Author opts)
                (case Committer opts of None \<Rightarrow> Author opts | Some x \<Rightarrow> x) msg t (Parents opts))
     \<and> updateHEAD c (g\<lparr>Wt := Some w1, Objects := insert c (Objects g)\<rparr>) = (Inr (), g1)"
proof -
  from assms obtain opts where v: "CommitOptions_Validate opts0 g = Inr opts"
    by (cases "CommitOptions_Validate opts0 g") (simp_all add: Worktree_Commit_def)
  from assms v obtain w where w: "Wt g = Some w"
    by (cases "Wt g") (simp_all add: Worktree_Commit_def Repository_Worktree_def)
  from assms v w obtain w1 where
    w1: "(if CommitAll opts then wt_AddModified G w else Inr w) = Inr w1"
    by (cases "if CommitAll opts then wt_AddModified G w else Inr w")
      (simp_all add: Worktree_Commit_def Repository_Worktree_def)
  from assms v w w1 obtain t where t: "wt_BuildTree G w1 = Inr t"
    by (cases "wt_BuildTree G w1") (simp_all add: Worktree_Commit_def Repository_Worktree_def)
  let ?c = "CommitHash (MkCommit (Author opts)
                (case Committer opts of None \<Rightarrow> Author opts | Some x \<Rightarrow> x) msg t (Parents opts))"
  from assms v w w1 t
  have "c = ?c \<and> updateHEAD ?c (g\<lparr>Wt := Some w1, Objects := insert ?c (Objects g)\<rparr>) = (Inr (), g1)"
    by (cases "updateHEAD ?c (g\<lparr>Wt := Some w1, Objects := insert ?c (Objects g)\<rparr>)")
      (auto simp: Worktree_Commit_def Repository_Worktree_def Let_def split: sum.splits)
  with v w w1 t show ?thesis by blast
qed

lemma Commit_Ok:
  assumes "fst (Commit G r u filename msg) = Ok ()"
  shows "\<exists>g c g1. root r = Some g
     \<and> Worktree_Commit G msg
          \<lparr>CommitAll = True, Author = Signature (Name u) (Email u) (Now G),
           Committer = None, Parents = []\<rparr> g = (Inr c, g1)
     \<and> snd (Commit G r u filename msg) = r\<lparr>root := Some g1\<rparr>"
  using assms
  by (auto simp: Commit_def split: option.splits sum.splits prod.splits)

text \<open>
  What a call of Commit that returns without an error has done: it staged what was
  modified in the work tree, built the tree from that, stored a commit with that tree, the
  user as author and committer, the message, and the commit \<^verbatim>\<open>HEAD\<close> resolved to as its
  parent (none if \<^verbatim>\<open>HEAD\<close> did not resolve), and made it the tip of the branch \<^verbatim>\<open>HEAD\<close>
  names (of \<^verbatim>\<open>HEAD\<close> itself when detached).
\<close>

lemma Commit_success:
  assumes "fst (Commit G r u filename msg) = Ok ()"
  shows "\<exists>g w w1 t g1. root r = Some g \<and> Wt g = Some w
           \<and> wt_AddModified G w = Inr w1 \<and> wt_BuildTree G w1 = Inr t
           \<and> root (snd (Commit G r u filename msg)) = Some g1 \<and> Wt g1 = Some w1
           \<and> Objects g1 = insert (CommitHash (MkCommit (Signature (Name u) (Email u) (Now G))
                     (Signature (Name u) (Email u) (Now G)) msg t
                     (case Repository_Head g of Inl _ \<Rightarrow> [] | Inr h \<Rightarrow> [ref_Hash h]))) (Objects g)
           \<and> (case map_of (Refs g) ''HEAD'' of
                 Some (SymbolicReference b) \<Rightarrow> map_of (Refs g1) b
               | _ \<Rightarrow> map_of (Refs g1) ''HEAD'')
               = Some (HashReference (CommitHash (MkCommit (Signature (Name u) (Email u) (Now G))
                     (Signature (Name u) (Email u) (Now G)) msg t
                     (case Repository_Head g of Inl _ \<Rightarrow> [] | Inr h \<Rightarrow> [ref_Hash h]))))"
proof -
  let ?a = "Signature (Name u) (Email u) (Now G)"
  from Commit_Ok [OF assms] obtain g c g1 where
    g: "root r = Some g"
    and wc: "Worktree_Commit G msg
          \<lparr>CommitAll = True, Author = ?a, Committer = None, Parents = []\<rparr> g = (Inr c, g1)"
    and res: "snd (Commit G r u filename msg) = r\<lparr>root := Some g1\<rparr>"
    by blast
  from Worktree_Commit_Inr [OF wc] obtain opts w w1 t where
    v: "CommitOptions_Validate
          \<lparr>CommitAll = True, Author = ?a, Committer = None, Parents = []\<rparr> g = Inr opts"
    and w: "Wt g = Some w"
    and w1: "(if CommitAll opts then wt_AddModified G w else Inr w) = Inr w1"
    and t: "wt_BuildTree G w1 = Inr t"
    and c: "c = CommitHash (MkCommit (Author opts)
                (case Committer opts of None \<Rightarrow> Author opts | Some x \<Rightarrow> x) msg t (Parents opts))"
    and up: "updateHEAD c (g\<lparr>Wt := Some w1, Objects := insert c (Objects g)\<rparr>) = (Inr (), g1)"
    by blast
  note o = Validate_commit_all [OF v]
  have c': "c = CommitHash (MkCommit ?a ?a msg t
                (case Repository_Head g of Inl _ \<Rightarrow> [] | Inr h \<Rightarrow> [ref_Hash h]))"
    using c by (simp add: o)
  have w1': "wt_AddModified G w = Inr w1" using w1 by (simp add: o)
  from updateHEAD_Inr [OF up]
  have "Wt g1 = Some w1" and "Objects g1 = insert c (Objects g)"
    and "(case map_of (Refs g) ''HEAD'' of
            Some (SymbolicReference b) \<Rightarrow> map_of (Refs g1) b
          | _ \<Rightarrow> map_of (Refs g1) ''HEAD'') = Some (HashReference c)"
    by simp_all
  with g w w1' t res c' show ?thesis by simp
qed

text \<open>
  In a repository with a work tree, where \<^verbatim>\<open>HEAD\<close> names a branch with a tip and the
  staging and the building of the tree go through, Commit does return without an error.
\<close>

lemma Commit_succeeds:
  assumes "root r = Some g" and "Wt g = Some w"
    and "map_of (Refs g) ''HEAD'' = Some (SymbolicReference head_branch)"
    and "map_of (Refs g) head_branch = Some (HashReference tip)"
    and "wt_AddModified G w = Inr w1" and "wt_BuildTree G w1 = Inr t"
  shows "fst (Commit G r u filename msg) = Ok ()
     \<and> (\<exists>g1. root (snd (Commit G r u filename msg)) = Some g1 \<and> Wt g1 = Some w1
          \<and> map_of (Refs g1) head_branch =
              Some (HashReference (CommitHash (MkCommit (Signature (Name u) (Email u) (Now G))
                     (Signature (Name u) (Email u) (Now G)) msg t [tip]))))"
  using assms
  by (simp add: Commit_def Worktree_Commit_def CommitOptions_Validate_def updateHEAD_def
      Repository_Head_def ResolveReference_def resolveReference.simps
      Repository_Worktree_def Storer_Reference_def Storer_SetReference_def map_of_set_ref Let_def)

text \<open>
  Claim C10. Commit does not look at its \<open>filename\<close> argument: two calls that differ
  only in it return the same result and the same repository. It stages nothing by path:
  its result does not depend on what \<^verbatim>\<open>Add\<close> of a path would do. And it commits all
  modified content of the work tree: a call that returns without an error has staged what
  was modified (\<^verbatim>\<open>All\<close>), has stored a commit of the tree built from that, by the user,
  with the message, on top of the commit \<^verbatim>\<open>HEAD\<close> resolved to, and has made it the tip of
  what \<^verbatim>\<open>HEAD\<close> names; and where \<^verbatim>\<open>HEAD\<close> names a branch with a tip and staging and
  tree building go through, the call does return without an error, with that commit as the
  new tip of the branch.
\<close>

theorem Commit_ignores_filename:
  "Commit G r u filename msg = Commit G r u filename' msg
   \<and> Commit (G\<lparr>wt_Add := add\<rparr>) r u filename msg = Commit G r u filename msg
   \<and> (fst (Commit G r u filename msg) = Ok () \<longrightarrow>
        (\<exists>g w w1 t g1. root r = Some g \<and> Wt g = Some w
           \<and> wt_AddModified G w = Inr w1 \<and> wt_BuildTree G w1 = Inr t
           \<and> root (snd (Commit G r u filename msg)) = Some g1 \<and> Wt g1 = Some w1
           \<and> Objects g1 = insert (CommitHash (MkCommit (Signature (Name u) (Email u) (Now G))
                     (Signature (Name u) (Email u) (Now G)) msg t
                     (case Repository_Head g of Inl _ \<Rightarrow> [] | Inr h \<Rightarrow> [ref_Hash h]))) (Objects g)
           \<and> (case map_of (Refs g) ''HEAD'' of
                 Some (SymbolicReference b) \<Rightarrow> map_of (Refs g1) b
               | _ \<Rightarrow> map_of (Refs g1) ''HEAD'')
               = Some (HashReference (CommitHash (MkCommit (Signature (Name u) (Email u) (Now G))
                     (Signature (Name u) (Email u) (Now G)) msg t
                     (case Repository_Head g of Inl _ \<Rightarrow> [] | Inr h \<Rightarrow> [ref_Hash h]))))))
   \<and> (root r = Some g0 \<and> Wt g0 = Some w0
        \<and> map_of (Refs g0) ''HEAD'' = Some (SymbolicReference head_branch)
        \<and> map_of (Refs g0) head_branch = Some (HashReference tip)
        \<and> wt_AddModified G w0 = Inr w2 \<and> wt_BuildTree G w2 = Inr t2 \<longrightarrow>
        fst (Commit G r u filename msg) = Ok ()
        \<and> (\<exists>g1. root (snd (Commit G r u filename msg)) = Some g1 \<and> Wt g1 = Some w2
             \<and> map_of (Refs g1) head_branch =
                 Some (HashReference (CommitHash (MkCommit (Signature (Name u) (Email u) (Now G))
                     (Signature (Name u) (Email u) (Now G)) msg t2 [tip])))))"
proof (intro conjI impI)
  show "Commit G r u filename msg = Commit G r u filename' msg"
    by (simp add: Commit_def)
  show "Commit (G\<lparr>wt_Add := add\<rparr>) r u filename msg = Commit G r u filename msg"
    by (simp add: Commit_def Worktree_Commit_Add_free cong: option.case_cong sum.case_cong)
next
  assume "fst (Commit G r u filename msg) = Ok ()"
  then show "\<exists>g w w1 t g1. root r = Some g \<and> Wt g = Some w
           \<and> wt_AddModified G w = Inr w1 \<and> wt_BuildTree G w1 = Inr t
           \<and> root (snd (Commit G r u filename msg)) = Some g1 \<and> Wt g1 = Some w1
           \<and> Objects g1 = insert (CommitHash (MkCommit (Signature (Name u) (Email u) (Now G))
                     (Signature (Name u) (Email u) (Now G)) msg t
                     (case Repository_Head g of Inl _ \<Rightarrow> [] | Inr h \<Rightarrow> [ref_Hash h]))) (Objects g)
           \<and> (case map_of (Refs g) ''HEAD'' of
                 Some (SymbolicReference b) \<Rightarrow> map_of (Refs g1) b
               | _ \<Rightarrow> map_of (Refs g1) ''HEAD'')
               = Some (HashReference (CommitHash (MkCommit (Signature (Name u) (Email u) (Now G))
                     (Signature (Name u) (Email u) (Now G)) msg t
                     (case Repository_Head g of Inl _ \<Rightarrow> [] | Inr h \<Rightarrow> [ref_Hash h]))))"
    by (rule Commit_success)
next
  assume a: "root r = Some g0 \<and> Wt g0 = Some w0
        \<and> map_of (Refs g0) ''HEAD'' = Some (SymbolicReference head_branch)
        \<and> map_of (Refs g0) head_branch = Some (HashReference tip)
        \<and> wt_AddModified G w0 = Inr w2 \<and> wt_BuildTree G w2 = Inr t2"
  have "fst (Commit G r u filename msg) = Ok ()
     \<and> (\<exists>g1. root (snd (Commit G r u filename msg)) = Some g1 \<and> Wt g1 = Some w2
          \<and> map_of (Refs g1) head_branch =
              Some (HashReference (CommitHash (MkCommit (Signature (Name u) (Email u) (Now G))
                     (Signature (Name u) (Email u) (Now G)) msg t2 [tip]))))"
    using a Commit_succeeds [where r = r and g = g0 and w = w0 and head_branch = head_branch
        and tip = tip and G = G and ?w1.0 = w2 and t = t2 and u = u and filename = filename
        and msg = msg]
    by simp
  then show "fst (Commit G r u filename msg) = Ok ()"
    and "\<exists>g1. root (snd (Commit G r u filename msg)) = Some g1 \<and> Wt g1 = Some w2
             \<and> map_of (Refs g1) head_branch =
                 Some (HashReference (CommitHash (MkCommit (Signature (Name u) (Email u) (Now G))
                     (Signature (Name u) (Email u) (Now G)) msg t2 [tip])))"
    by simp_all
qed

theorem Commit_ignores_filename_witness:
  "Commit example_staging_env (example_repository ''main'' False) example_user ''a.gpg'' ''update''
     = Commit example_staging_env (example_repository ''main'' False) example_user ''b.gpg'' ''update''
   \<and> fst (Commit example_staging_env (example_repository ''main'' False) example_user
            ''a.gpg'' ''update'') = Ok ()
   \<and> (\<exists>g1. root (snd (Commit example_staging_env (example_repository ''main'' False) example_user
                     ''a.gpg'' ''update'')) = Some g1
         \<and> Wt g1 = Some 8
         \<and> map_of (Refs g1) ''refs/heads/main'' =
             Some (HashReference (CommitHash
               (MkCommit (Signature ''Bob'' ''bob@example.org'' 1500000000)
                  (Signature ''Bob'' ''bob@example.org'' 1500000000) ''update'' 8
                  [CommitHash example_commit]))))"
  using Commit_ignores_filename
    [where G = example_staging_env and r = "example_repository ''main'' False"
      and u = example_user and filename = "''a.gpg''" and filename' = "''b.gpg''"
      and msg = "''update''" and ?g0.0 = "example_git ''main'' False" and ?w0.0 = 7
      and head_branch = "''refs/heads/main''" and tip = "CommitHash example_commit"
      and ?w2.0 = 8 and ?t2.0 = 8 and add = "\<lambda>p w. Inr w"]
  by (simp add: example_staging_env_def example_git_defs Commit_def go_git_defs Let_def)

end
